theory Spec2Isabelle
  imports Complex_Main
begin

section \<open>Run-time values\<close>

text \<open>
  The worker is TypeScript; its interfaces are erased when it runs, and both
  \<^verbatim>\<open>response.json()\<close> and \<^verbatim>\<open>JSON.parse\<close> hand back whatever the text held.
  Values are therefore modelled untyped. An object is the list of its own
  properties; a number is a real (the worker only copies and compares numbers).
\<close>

datatype jsval =
    JUndefined
  | JNull
  | JBool bool
  | JNum real
  | JStr string
  | JArr "jsval list"
  | JObj "(string \<times> jsval) list"

text \<open>Every value thrown on the paths modelled here is an \<^verbatim>\<open>Error\<close>; only its message is kept.\<close>

datatype exn = Error string

text \<open>\<^verbatim>\<open>!v\<close> is \<open>\<not> truthy v\<close>.\<close>

fun truthy :: "jsval \<Rightarrow> bool" where
  "truthy JUndefined = False"
| "truthy JNull = False"
| "truthy (JBool b) = b"
| "truthy (JNum n) = (n \<noteq> 0)"
| "truthy (JStr s) = (s \<noteq> [])"
| "truthy (JArr xs) = True"
| "truthy (JObj kvs) = True"

fun nullish :: "jsval \<Rightarrow> bool" where
  "nullish JUndefined = True"
| "nullish JNull = True"
| "nullish v = False"

text \<open>
  \<^verbatim>\<open>a === b\<close>. Two objects or arrays are equal only when they are the same object;
  the operands compared by the worker are always distinct nodes of one parsed
  document (or a fresh string), so for them the comparison is false.
\<close>

fun strict_eq :: "jsval \<Rightarrow> jsval \<Rightarrow> bool" where
  "strict_eq JUndefined JUndefined = True"
| "strict_eq JNull JNull = True"
| "strict_eq (JBool a) (JBool b) = (a = b)"
| "strict_eq (JNum a) (JNum b) = (a = b)"
| "strict_eq (JStr a) (JStr b) = (a = b)"
| "strict_eq a b = False"

text \<open>
  \<^verbatim>\<open>v.k\<close> for the property names the worker reads (\<^verbatim>\<open>current_weather\<close>, \<^verbatim>\<open>hourly\<close>,
  \<^verbatim>\<open>time\<close>, \<^verbatim>\<open>precipitation\<close>, \<^verbatim>\<open>cloudcover\<close>, \<^verbatim>\<open>temperature\<close>): none of them is
  defined by a built-in prototype, so only an object's own properties answer.
  Reading a property of \<^verbatim>\<open>null\<close> or \<^verbatim>\<open>undefined\<close> throws a TypeError.
\<close>

fun get_prop :: "jsval \<Rightarrow> string \<Rightarrow> exn + jsval" where
  "get_prop JUndefined k = Inl (Error (''Cannot read properties of undefined (reading '' @ k @ '')''))"
| "get_prop JNull k = Inl (Error (''Cannot read properties of null (reading '' @ k @ '')''))"
| "get_prop (JObj kvs) k = Inr (case map_of kvs k of None \<Rightarrow> JUndefined | Some v \<Rightarrow> v)"
| "get_prop v k = Inr JUndefined"

text \<open>Sequencing of steps that may throw.\<close>

definition bindE :: "exn + 'a \<Rightarrow> ('a \<Rightarrow> exn + 'b) \<Rightarrow> exn + 'b" where
  "bindE m f = (case m of Inl e \<Rightarrow> Inl e | Inr x \<Rightarrow> f x)"

text \<open>\<^verbatim>\<open>v.a?.b\<close>: the optional chain stops with \<^verbatim>\<open>undefined\<close> when \<^verbatim>\<open>v.a\<close> is nullish.\<close>

definition opt_chain :: "jsval \<Rightarrow> string \<Rightarrow> string \<Rightarrow> exn + jsval" where
  "opt_chain v a b =
     bindE (get_prop v a) (\<lambda>x. if nullish x then Inr JUndefined else get_prop x b)"

text \<open>Decimal digits of a natural number (\<^verbatim>\<open>Number.prototype.toString\<close> on a small integer).\<close>

fun nat_to_string :: "nat \<Rightarrow> string" where
  "nat_to_string n =
     (if n < 10 then [char_of (48 + n)]
      else nat_to_string (n div 10) @ [char_of (48 + n mod 10)])"

declare nat_to_string.simps [simp del]

text \<open>\<^verbatim>\<open>s.padStart(2, '0')\<close>\<close>

definition padStart2 :: "string \<Rightarrow> string" where
  "padStart2 s = replicate (2 - length s) (CHR ''0'') @ s"

text \<open>
  \<^verbatim>\<open>v[i]\<close> for an integer \<open>i\<close>: an element of an array, a one-character string of
  a string, the own property named by the decimal digits of \<open>i\<close> of an object,
  \<^verbatim>\<open>undefined\<close> everywhere else; a TypeError on \<^verbatim>\<open>null\<close> and \<^verbatim>\<open>undefined\<close>.
\<close>

fun js_index :: "jsval \<Rightarrow> int \<Rightarrow> exn + jsval" where
  "js_index JUndefined i = Inl (Error ''Cannot read properties of undefined'')"
| "js_index JNull i = Inl (Error ''Cannot read properties of null'')"
| "js_index (JArr xs) i =
     Inr (if 0 \<le> i \<and> i < int (length xs) then xs ! nat i else JUndefined)"
| "js_index (JStr s) i =
     Inr (if 0 \<le> i \<and> i < int (length s) then JStr [s ! nat i] else JUndefined)"
| "js_index (JObj kvs) i =
     Inr (if 0 \<le> i then (case map_of kvs (nat_to_string (nat i)) of
                            None \<Rightarrow> JUndefined | Some v \<Rightarrow> v)
          else JUndefined)"
| "js_index v i = Inr JUndefined"

text \<open>\<^verbatim>\<open>Array.prototype.findIndex\<close>: the first position whose element passes, else \<open>-1\<close>.\<close>

fun findIndexFrom :: "(jsval \<Rightarrow> bool) \<Rightarrow> jsval list \<Rightarrow> int \<Rightarrow> int" where
  "findIndexFrom p [] k = - 1"
| "findIndexFrom p (x # xs) k = (if p x then k else findIndexFrom p xs (k + 1))"

text \<open>
  \<^verbatim>\<open>v.findIndex(p)\<close>: only arrays have the method; on any other non-nullish
  value \<^verbatim>\<open>v.findIndex\<close> is not callable and the call throws a TypeError.
\<close>

fun findIndex :: "jsval \<Rightarrow> (jsval \<Rightarrow> bool) \<Rightarrow> exn + int" where
  "findIndex (JArr xs) p = Inr (findIndexFrom p xs 0)"
| "findIndex v p = Inl (Error ''findIndex is not a function'')"

text \<open>
  Whether converting a value to a string (in a template literal) throws. An
  object converts through \<^verbatim>\<open>toString\<close> then \<^verbatim>\<open>valueOf\<close>; an own property named
  \<^verbatim>\<open>toString\<close> (never callable in parsed JSON) hides the inherited method, the
  inherited \<^verbatim>\<open>valueOf\<close> returns the object itself, and the conversion ends in a
  TypeError. An array joins the conversions of its elements, skipping
  \<^verbatim>\<open>null\<close> and \<^verbatim>\<open>undefined\<close>.
\<close>

fun toString_throws :: "jsval \<Rightarrow> bool" where
  "toString_throws (JObj kvs) = (map_of kvs ''toString'' \<noteq> None)"
| "toString_throws (JArr xs) = list_ex toString_throws xs"
| "toString_throws v = False"

section \<open>Data of the worker\<close>

text \<open>\<^verbatim>\<open>interface CachedWeatherData\<close>; a field holds whatever value was put there.\<close>

record CachedWeatherData =
  temperature :: jsval
  precipitation :: jsval
  cloudcover :: jsval
  timestamp :: jsval
  lastUpdated :: jsval

text \<open>The object literal built by the fetcher, as a run-time value.\<close>

definition js_of_record :: "CachedWeatherData \<Rightarrow> jsval" where
  "js_of_record r = JObj
     [(''temperature'', temperature r),
      (''precipitation'', precipitation r),
      (''cloudcover'', cloudcover r),
      (''timestamp'', timestamp r),
      (''lastUpdated'', lastUpdated r)]"

text \<open>The platform's \<^verbatim>\<open>Response\<close> of the upstream call, as far as the worker reads it.\<close>

record http_response =
  ok :: bool
  statusText :: string
  json :: "exn + jsval"

text \<open>
  Everything outside the worker, as one invocation sees it.
  \<^item> \<open>API_URL\<close>: the configured base URL (\<^verbatim>\<open>env.API_URL\<close>).
  \<^item> \<open>net_fetch\<close>: the global \<^verbatim>\<open>fetch(url)\<close>; \<open>Inl\<close> is a rejected promise.
  \<^item> \<open>kv_get\<close>, \<open>kv_put\<close>: \<^verbatim>\<open>env.WEATHER_CACHE.get\<close> and \<^verbatim>\<open>.put\<close>; \<open>kv_put\<close> answers
    \<open>Some e\<close> when the write throws.
  \<^item> \<open>JSON_parse\<close>, \<open>JSON_stringify\<close>: the built-ins.
  \<^item> \<open>now_iso\<close>: \<^verbatim>\<open>new Date().toISOString()\<close> at the moment of the call.
  \<^item> \<open>date_utc\<close>: for \<^verbatim>\<open>d = new Date(v)\<close>, the pair of \<^verbatim>\<open>d.getUTCHours()\<close> and
    \<^verbatim>\<open>d.toISOString()\<close>; \<open>None\<close> when \<open>d\<close> is an invalid date, on which
    \<^verbatim>\<open>toISOString\<close> throws a RangeError (or when converting \<open>v\<close> throws).
\<close>

record world =
  API_URL :: string
  net_fetch :: "string \<Rightarrow> exn + http_response"
  kv_get :: "string \<Rightarrow> exn + string option"
  kv_put :: "string \<Rightarrow> string \<Rightarrow> nat \<Rightarrow> exn option"
  JSON_parse :: "string \<Rightarrow> exn + jsval"
  JSON_stringify :: "jsval \<Rightarrow> string"
  now_iso :: string
  date_utc :: "jsval \<Rightarrow> (nat \<times> string) option"

text \<open>The calls that leave the worker, in the order they are made.\<close>

datatype event =
    NetFetch string
  | KvGet string
  | KvPut string string nat

text \<open>An asynchronous function: its outcome and the outside calls it made.\<close>

type_synonym 'a comp = "(exn + 'a) \<times> event list"

definition ret :: "'a \<Rightarrow> 'a comp" where
  "ret x = (Inr x, [])"

definition call :: "event \<Rightarrow> exn + 'a \<Rightarrow> 'a comp" where
  "call ev r = (r, [ev])"

definition bindC :: "'a comp \<Rightarrow> ('a \<Rightarrow> 'b comp) \<Rightarrow> 'b comp" where
  "bindC m f =
     (case m of
        (Inl e, t) \<Rightarrow> (Inl e, t)
      | (Inr x, t) \<Rightarrow> (case f x of (r, t') \<Rightarrow> (r, t @ t')))"

text \<open>\<^verbatim>\<open>try { m } catch (err) { h err }\<close>\<close>

definition tryCatch :: "'a comp \<Rightarrow> (exn \<Rightarrow> 'a comp) \<Rightarrow> 'a comp" where
  "tryCatch m h =
     (case m of
        (Inl e, t) \<Rightarrow> (case h e of (r, t') \<Rightarrow> (r, t @ t'))
      | (Inr x, t) \<Rightarrow> (Inr x, t))"

record request =
  http_method :: string
  headers_get :: "string \<Rightarrow> string option"

record response =
  status :: nat
  body :: "string option"
  headers :: "(string \<times> string) list"

definition corsHeaders :: "(string \<times> string) list" where
  "corsHeaders =
     [(''Access-Control-Allow-Origin'', ''*''),
      (''Access-Control-Allow-Methods'', ''GET,HEAD,POST,OPTIONS''),
      (''Access-Control-Max-Age'', ''86400'')]"

definition CACHE_KEY :: string where
  "CACHE_KEY = ''weather_fukuoka''"

definition CACHE_TTL :: nat where
  "CACHE_TTL = 4 * 60 * 60"

section \<open>The fetcher\<close>

definition apiUrl :: "world \<Rightarrow> string" where
  "apiUrl env =
     API_URL env @ ''?'' @
     ''latitude=33.5902&longitude=130.4017&current_weather=true'' @
     ''&hourly=precipitation,cloudcover''"

text \<open>
  \<^verbatim>\<open>src/src/worker.ts\<close>, lines 52 to 57: the guard of the "Weather data is
  incomplete" branch, evaluated left to right with the short-circuit of \<^verbatim>\<open>||\<close>.
\<close>

definition incomplete :: "jsval \<Rightarrow> exn + bool" where
  "incomplete d =
     bindE (get_prop d ''current_weather'') (\<lambda>cw.
     if \<not> truthy cw then Inr True else
     bindE (opt_chain d ''hourly'' ''precipitation'') (\<lambda>ps.
     if \<not> truthy ps then Inr True else
     bindE (opt_chain d ''hourly'' ''cloudcover'') (\<lambda>cs.
     if \<not> truthy cs then Inr True else
     bindE (opt_chain d ''hourly'' ''time'') (\<lambda>ts.
     Inr (\<not> truthy ts)))))"

text \<open>\<^verbatim>\<open>`${currentDateStr}T${currentHour.toString().padStart(2, '0')}:00`\<close>\<close>

definition targetTime :: "string \<Rightarrow> nat \<Rightarrow> string" where
  "targetTime currentDateStr currentHour =
     currentDateStr @ ''T'' @ padStart2 (nat_to_string currentHour) @ '':00''"

text \<open>\<^verbatim>\<open>hourlyTimes.slice(0, 3)\<close>, reached only when \<^verbatim>\<open>hourlyTimes\<close> is an array.\<close>

fun slice_0_3 :: "jsval \<Rightarrow> jsval" where
  "slice_0_3 (JArr xs) = JArr (take 3 xs)"
| "slice_0_3 v = v"

text \<open>
  \<^verbatim>\<open>src/src/worker.ts\<close>, lines 68 to 85: the exact match first, then the label of
  the same date and UTC hour, then the first hour. The text of the date is
  \<^verbatim>\<open>toISOString().split('T')[0]\<close>. The message logged before the last fallback
  converts \<^verbatim>\<open>currentTime\<close> and \<^verbatim>\<open>hourlyTimes.slice(0, 3)\<close> to strings.
\<close>

definition select_index :: "world \<Rightarrow> jsval \<Rightarrow> jsval \<Rightarrow> exn + int" where
  "select_index env currentTime hourlyTimes =
     bindE (findIndex hourlyTimes (\<lambda>t. strict_eq t currentTime)) (\<lambda>index.
     if index = - 1 then
       (case date_utc env currentTime of
          None \<Rightarrow> Inl (Error ''Invalid time value'')
        | Some (currentHour, isoString) \<Rightarrow>
            bindE (findIndex hourlyTimes
                     (\<lambda>t. strict_eq t
                        (JStr (targetTime (takeWhile (\<lambda>c. c \<noteq> CHR ''T'') isoString) currentHour))))
              (\<lambda>index2.
                 if index2 = - 1 then
                   (if toString_throws currentTime \<or> toString_throws (slice_0_3 hourlyTimes)
                    then Inl (Error ''Cannot convert object to primitive value'')
                    else Inr 0)
                 else Inr index2))
     else Inr index)"

text \<open>
  \<^verbatim>\<open>src/src/worker.ts\<close>, lines 87 to 101, and the same text in
  \<^verbatim>\<open>src/unnamed/part_000\<close>, lines 66 to 80: read both hourly values at the index,
  give up when one is \<^verbatim>\<open>undefined\<close>, else build the record.
\<close>

definition build_record ::
  "world \<Rightarrow> jsval \<Rightarrow> jsval \<Rightarrow> int \<Rightarrow> exn + CachedWeatherData option" where
  "build_record env d currentTime index =
     bindE (get_prop d ''hourly'') (\<lambda>hourly.
     bindE (get_prop hourly ''precipitation'') (\<lambda>ps.
     bindE (js_index ps index) (\<lambda>p.
     bindE (get_prop hourly ''cloudcover'') (\<lambda>cs.
     bindE (js_index cs index) (\<lambda>c.
     if strict_eq p JUndefined \<or> strict_eq c JUndefined then Inr None else
     bindE (get_prop d ''current_weather'') (\<lambda>cw.
     bindE (get_prop cw ''temperature'') (\<lambda>t.
     Inr (Some \<lparr>temperature = t, precipitation = p, cloudcover = c,
                 timestamp = currentTime, lastUpdated = JStr (now_iso env)\<rparr>))))))))"

text \<open>\<^verbatim>\<open>src/src/worker.ts\<close>, lines 45 to 101: what the \<^verbatim>\<open>try\<close> block does with the response.\<close>

definition fetchWeatherData_body :: "world \<Rightarrow> http_response \<Rightarrow> exn + CachedWeatherData option" where
  "fetchWeatherData_body env response =
     (if \<not> ok response then Inr None else
      bindE (json response) (\<lambda>d.
      bindE (incomplete d) (\<lambda>inc.
      if inc then Inr None else
      bindE (get_prop d ''current_weather'') (\<lambda>cw.
      bindE (get_prop cw ''time'') (\<lambda>currentTime.
      bindE (get_prop d ''hourly'') (\<lambda>hourly.
      bindE (get_prop hourly ''time'') (\<lambda>hourlyTimes.
      bindE (select_index env currentTime hourlyTimes) (\<lambda>index.
      build_record env d currentTime index))))))))"

definition fetchWeatherData :: "world \<Rightarrow> CachedWeatherData option comp" where
  "fetchWeatherData env =
     tryCatch
       (bindC (call (NetFetch (apiUrl env)) (net_fetch env (apiUrl env)))
          (\<lambda>response. (fetchWeatherData_body env response, [])))
       (\<lambda>err. ret None)"

subsection \<open>The fetcher of \<^verbatim>\<open>src/unnamed/part_000\<close>\<close>

text \<open>
  Lines 56 to 61: \<^verbatim>\<open>index === -1 || !data.current_weather ||
  !data.hourly?.precipitation || !data.hourly?.cloudcover\<close>.
\<close>

definition incomplete_part000 :: "jsval \<Rightarrow> int \<Rightarrow> exn + bool" where
  "incomplete_part000 d index =
     (if index = - 1 then Inr True else
      bindE (get_prop d ''current_weather'') (\<lambda>cw.
      if \<not> truthy cw then Inr True else
      bindE (opt_chain d ''hourly'' ''precipitation'') (\<lambda>ps.
      if \<not> truthy ps then Inr True else
      bindE (opt_chain d ''hourly'' ''cloudcover'') (\<lambda>cs.
      Inr (\<not> truthy cs)))))"

text \<open>Lines 45 to 80; \<^verbatim>\<open>data.hourly?.time || []\<close> replaces a falsy value by the empty array.\<close>

definition fetchWeatherData_body_part000 ::
  "world \<Rightarrow> http_response \<Rightarrow> exn + CachedWeatherData option" where
  "fetchWeatherData_body_part000 env response =
     (if \<not> ok response then Inr None else
      bindE (json response) (\<lambda>d.
      bindE (opt_chain d ''current_weather'' ''time'') (\<lambda>currentTime.
      bindE (opt_chain d ''hourly'' ''time'') (\<lambda>ts.
      bindE (findIndex (if truthy ts then ts else JArr []) (\<lambda>t. strict_eq t currentTime)) (\<lambda>index.
      bindE (incomplete_part000 d index) (\<lambda>inc.
      if inc then Inr None else
      build_record env d currentTime index))))))"

definition fetchWeatherData_part000 :: "world \<Rightarrow> CachedWeatherData option comp" where
  "fetchWeatherData_part000 env =
     tryCatch
       (bindC (call (NetFetch (apiUrl env)) (net_fetch env (apiUrl env)))
          (\<lambda>response. (fetchWeatherData_body_part000 env response, [])))
       (\<lambda>err. ret None)"

section \<open>The cache accessor\<close>

text \<open>\<^verbatim>\<open>if (!cached) return null\<close> covers \<^verbatim>\<open>null\<close> and the empty string.\<close>

definition getCachedWeatherData :: "world \<Rightarrow> jsval comp" where
  "getCachedWeatherData env =
     tryCatch
       (bindC (call (KvGet CACHE_KEY) (kv_get env CACHE_KEY)) (\<lambda>cached.
          case cached of
            None \<Rightarrow> ret JNull
          | Some s \<Rightarrow> if s = [] then ret JNull else (JSON_parse env s, [])))
       (\<lambda>err. ret JNull)"

definition setCachedWeatherData :: "world \<Rightarrow> CachedWeatherData \<Rightarrow> unit comp" where
  "setCachedWeatherData env data =
     tryCatch
       (call (KvPut CACHE_KEY (JSON_stringify env (js_of_record data)) CACHE_TTL)
          (case kv_put env CACHE_KEY (JSON_stringify env (js_of_record data)) CACHE_TTL of
             None \<Rightarrow> Inr ()
           | Some e \<Rightarrow> Inl e))
       (\<lambda>err. ret ())"

section \<open>The two entry points\<close>

text \<open>\<^verbatim>\<open>new Response(JSON.stringify(weatherData), ...)\<close>; the status defaults to 200.\<close>

definition json_response :: "world \<Rightarrow> jsval \<Rightarrow> response" where
  "json_response env weatherData =
     \<lparr>status = 200,
      body = Some (JSON_stringify env weatherData),
      headers = (''Content-Type'', ''application/json'') # corsHeaders\<rparr>"

text \<open>
  The answer to \<^verbatim>\<open>OPTIONS\<close>, lines 143 to 149;
  \<^verbatim>\<open>request.headers.get(...) || ""\<close> turns \<^verbatim>\<open>null\<close> into the empty string.
\<close>

definition preflight_response :: "request \<Rightarrow> response" where
  "preflight_response request =
     \<lparr>status = 200,
      body = None,
      headers = corsHeaders @
        [(''Access-Control-Allow-Headers'',
          (case headers_get request ''Access-Control-Request-Headers'' of
             None \<Rightarrow> []
           | Some v \<Rightarrow> if v = [] then [] else v))]\<rparr>"

definition unavailable_response :: response where
  "unavailable_response =
     \<lparr>status = 503, body = Some ''Unable to fetch weather data'', headers = corsHeaders\<rparr>"

definition error_response :: "exn \<Rightarrow> response" where
  "error_response err =
     (case err of Error errorMessage \<Rightarrow>
        \<lparr>status = 500,
         body = Some (''Unexpected error: '' @ errorMessage),
         headers = corsHeaders\<rparr>)"

text \<open>
  The handler \<^verbatim>\<open>fetch(request, env, _ctx)\<close>, \<^verbatim>\<open>src/src/worker.ts\<close> lines 137 to 186;
  \<open>http_method\<close> is \<^verbatim>\<open>request.method\<close>.
\<close>

definition fetch :: "world \<Rightarrow> request \<Rightarrow> response comp" where
  "fetch env request =
     (if http_method request = ''OPTIONS'' then ret (preflight_response request)
      else
        tryCatch
          (bindC (getCachedWeatherData env) (\<lambda>weatherData.
             if \<not> truthy weatherData then
               bindC (fetchWeatherData env) (\<lambda>fetched.
                 case fetched of
                   None \<Rightarrow> ret unavailable_response
                 | Some r \<Rightarrow>
                     bindC (setCachedWeatherData env r) (\<lambda>u.
                       ret (json_response env (js_of_record r))))
             else ret (json_response env weatherData)))
          (\<lambda>err. ret (error_response err)))"

text \<open>The handler \<^verbatim>\<open>scheduled(_event, env, _ctx)\<close>, lines 188 to 211.\<close>

definition scheduled :: "world \<Rightarrow> unit comp" where
  "scheduled env =
     tryCatch
       (bindC (fetchWeatherData env) (\<lambda>weatherData.
          case weatherData of
            Some r \<Rightarrow> setCachedWeatherData env r
          | None \<Rightarrow> ret ()))
       (\<lambda>err. ret ())"

section \<open>Notions used to state the properties\<close>

text \<open>The outcome of a \<^verbatim>\<open>try\<close> block whose \<^verbatim>\<open>catch\<close> returns \<^verbatim>\<open>null\<close>.\<close>

definition caught :: "exn + 'a option \<Rightarrow> 'a option" where
  "caught m = (case m of Inl e \<Rightarrow> None | Inr r \<Rightarrow> r)"

text \<open>A record with all five fields defined.\<close>

definition complete :: "CachedWeatherData \<Rightarrow> bool" where
  "complete r \<longleftrightarrow>
     temperature r \<noteq> JUndefined \<and> precipitation r \<noteq> JUndefined \<and>
     cloudcover r \<noteq> JUndefined \<and> timestamp r \<noteq> JUndefined \<and>
     lastUpdated r \<noteq> JUndefined"

text \<open>The same for a run-time value: an object with the five properties, none \<^verbatim>\<open>undefined\<close>.\<close>

definition has_field :: "jsval \<Rightarrow> string \<Rightarrow> bool" where
  "has_field v k =
     (case v of
        JObj kvs \<Rightarrow> (case map_of kvs k of None \<Rightarrow> False | Some x \<Rightarrow> x \<noteq> JUndefined)
      | _ \<Rightarrow> False)"


section \<open>Concrete worlds\<close>

text \<open>The upstream body of the example in the specification and in \<^verbatim>\<open>worker.test.ts\<close>.\<close>

definition example_data :: jsval where
  "example_data = JObj
     [(''current_weather'',
        JObj [(''temperature'', JNum 23.1), (''time'', JStr ''2025-06-26T12:00'')]),
      (''hourly'',
        JObj [(''time'', JArr [JStr ''2025-06-26T12:00'', JStr ''2025-06-26T13:00'']),
              (''precipitation'', JArr [JNum 0.1, JNum 0.2]),
              (''cloudcover'', JArr [JNum 25, JNum 35])])]"

definition example_now :: string where
  "example_now = ''2025-06-26T12:00:05.000Z''"

definition example_record :: CachedWeatherData where
  "example_record =
     \<lparr>temperature = JNum 23.1, precipitation = JNum 0.1, cloudcover = JNum 25,
      timestamp = JStr ''2025-06-26T12:00'', lastUpdated = JStr example_now\<rparr>"

definition example_text :: string where
  \<open>example_text =
     ''{"temperature":23.1,"precipitation":0.1,"cloudcover":25,'' @
     ''"timestamp":"2025-06-26T12:00","lastUpdated":"2025-06-26T12:00:05.000Z"}''\<close>

text \<open>The record the first test of \<^verbatim>\<open>worker.test.ts\<close> puts in the cache, and its text.\<close>

definition cached_record :: CachedWeatherData where
  "cached_record =
     \<lparr>temperature = JNum 25.5, precipitation = JNum 0.2, cloudcover = JNum 30,
      timestamp = JStr ''2025-06-26T12:00'', lastUpdated = JStr ''2025-06-26T12:00:00.000Z''\<rparr>"

definition cached_text :: string where
  \<open>cached_text =
     ''{"temperature":25.5,"precipitation":0.2,"cloudcover":30,'' @
     ''"timestamp":"2025-06-26T12:00","lastUpdated":"2025-06-26T12:00:00.000Z"}''\<close>

text \<open>A cached text that holds one field only.\<close>

definition partial_value :: jsval where
  "partial_value = JObj [(''temperature'', JNum 23.1)]"

definition partial_text :: string where
  \<open>partial_text = ''{"temperature":23.1}''\<close>

text \<open>
  Stand-ins for \<^verbatim>\<open>JSON.parse\<close> and \<^verbatim>\<open>JSON.stringify\<close> in the concrete worlds: they
  agree with the built-ins on the three texts above and are not consulted on
  anything else.
\<close>

definition demo_parse :: "string \<Rightarrow> exn + jsval" where
  "demo_parse s =
     (if s = example_text then Inr (js_of_record example_record)
      else if s = cached_text then Inr (js_of_record cached_record)
      else if s = partial_text then Inr partial_value
      else Inl (Error ''Unexpected token''))"

definition demo_stringify :: "jsval \<Rightarrow> string" where
  "demo_stringify v =
     (if v = js_of_record example_record then example_text
      else if v = js_of_record cached_record then cached_text
      else if v = partial_value then partial_text
      else ''null'')"

text \<open>
  An empty cache and an upstream that answers with the example body. The date
  functions are those of a UTC host on the one label they are asked about.
\<close>

definition example_world :: world where
  "example_world =
     \<lparr>API_URL = ''https://api.open-meteo.com/v1/forecast'',
      net_fetch = (\<lambda>url. Inr \<lparr>ok = True, statusText = ''OK'', json = Inr example_data\<rparr>),
      kv_get = (\<lambda>k. Inr None),
      kv_put = (\<lambda>k v ttl. None),
      JSON_parse = demo_parse,
      JSON_stringify = demo_stringify,
      now_iso = example_now,
      date_utc = (\<lambda>v. if v = JStr ''2025-06-26T12:30''
                        then Some (12, ''2025-06-26T12:30:00.000Z'') else None)\<rparr>"

text \<open>The cache holds the record of the first test.\<close>

definition cached_world :: world where
  "cached_world = example_world\<lparr>kv_get := (\<lambda>k. Inr (Some cached_text))\<rparr>"

text \<open>The upstream of the fourth test: a response that is not \<^verbatim>\<open>ok\<close>.\<close>

definition down_world :: world where
  "down_world = example_world
     \<lparr>net_fetch := (\<lambda>url. Inr \<lparr>ok = False, statusText = ''Service Unavailable'',
                                 json = Inl (Error ''Unexpected end of JSON input'')\<rparr>)\<rparr>"

text \<open>A store whose writes throw.\<close>

definition failing_put :: "string \<Rightarrow> string \<Rightarrow> nat \<Rightarrow> exn option" where
  "failing_put k v ttl = Some (Error ''KV PUT failed'')"

definition get_request :: request where
  "get_request = \<lparr>http_method = ''GET'', headers_get = (\<lambda>h. None)\<rparr>"

definition options_request :: request where
  "options_request =
     \<lparr>http_method = ''OPTIONS'',
      headers_get = (\<lambda>h. if h = ''Access-Control-Request-Headers''
                          then Some ''Content-Type'' else None)\<rparr>"

text \<open>
  A value that a JSON text can denote: \<^verbatim>\<open>undefined\<close> occurs nowhere in it. Both
  \<^verbatim>\<open>response.json()\<close> and \<^verbatim>\<open>JSON.parse\<close> hand back such values only.
\<close>

fun json_value :: "jsval \<Rightarrow> bool" where
  "json_value JUndefined = False"
| "json_value (JArr xs) = list_all json_value xs"
| "json_value (JObj kvs) = list_all (\<lambda>kv. json_value (snd kv)) kvs"
| "json_value v = True"

text \<open>What the upstream response parses to, if it does, is a JSON value.\<close>

definition upstream_json :: "world \<Rightarrow> bool" where
  "upstream_json env =
     (case net_fetch env (apiUrl env) of
        Inl e \<Rightarrow> True
      | Inr response \<Rightarrow>
          (case json response of
             Inl e \<Rightarrow> True
           | Inr d \<Rightarrow> json_value d))"

text \<open>
  The upstream body gives a temperature in \<^verbatim>\<open>current_weather\<close>, as
  \<^verbatim>\<open>interface WeatherAPIResponse\<close> says it does whenever the reading is present.
\<close>

definition temperature_defined :: "world \<Rightarrow> bool" where
  "temperature_defined env =
     (case net_fetch env (apiUrl env) of
        Inl e \<Rightarrow> False
      | Inr response \<Rightarrow>
          (case json response of
             Inl e \<Rightarrow> False
           | Inr d \<Rightarrow>
               (case get_prop d ''current_weather'' of
                  Inl e \<Rightarrow> False
                | Inr cw \<Rightarrow> has_field cw ''temperature'')))"

text \<open>
  The body's hourly time array holds a label strictly equal to the time of
  the instantaneous reading.
\<close>

definition exact_match :: "jsval \<Rightarrow> bool" where
  "exact_match d =
     (case opt_chain d ''hourly'' ''time'' of
        Inr (JArr ts) \<Rightarrow>
          (case opt_chain d ''current_weather'' ''time'' of
             Inr currentTime \<Rightarrow> list_ex (\<lambda>t. strict_eq t currentTime) ts
           | Inl e \<Rightarrow> False)
      | _ \<Rightarrow> False)"

text \<open>
  The upstream answered with success and a body that has the reading and the
  three hourly values, the time one an array, but no label of that array is
  the reading's time.
\<close>

definition unmatched_response :: "world \<Rightarrow> bool" where
  "unmatched_response env =
     (case net_fetch env (apiUrl env) of
        Inl e \<Rightarrow> False
      | Inr response \<Rightarrow>
          ok response \<and>
          (case json response of
             Inl e \<Rightarrow> False
           | Inr d \<Rightarrow>
               incomplete d = Inr False \<and>
               (case opt_chain d ''hourly'' ''time'' of
                  Inr (JArr ts) \<Rightarrow> \<not> exact_match d
                | _ \<Rightarrow> False)))"

text \<open>
  A reading taken between two hours: its time is no label of the hourly array,
  and neither is the label of its own hour.
\<close>

definition fallback_data :: jsval where
  "fallback_data = JObj
     [(''current_weather'',
        JObj [(''temperature'', JNum 23.1), (''time'', JStr ''2025-06-26T12:30'')]),
      (''hourly'',
        JObj [(''time'', JArr [JStr ''2025-06-26T13:00'', JStr ''2025-06-26T14:00'']),
              (''precipitation'', JArr [JNum 0.2, JNum 0.3]),
              (''cloudcover'', JArr [JNum 35, JNum 45])])]"

definition fallback_world :: world where
  "fallback_world = example_world
     \<lparr>net_fetch := (\<lambda>url. Inr \<lparr>ok = True, statusText = ''OK'', json = Inr fallback_data\<rparr>)\<rparr>"

text \<open>The same reading with the label of its own hour second in the hourly array.\<close>

definition same_hour_data :: jsval where
  "same_hour_data = JObj
     [(''current_weather'',
        JObj [(''temperature'', JNum 23.1), (''time'', JStr ''2025-06-26T12:30'')]),
      (''hourly'',
        JObj [(''time'', JArr [JStr ''2025-06-26T11:00'', JStr ''2025-06-26T12:00'']),
              (''precipitation'', JArr [JNum 0.0, JNum 0.1]),
              (''cloudcover'', JArr [JNum 15, JNum 25])])]"

definition same_hour_world :: world where
  "same_hour_world = example_world
     \<lparr>net_fetch := (\<lambda>url. Inr \<lparr>ok = True, statusText = ''OK'', json = Inr same_hour_data\<rparr>)\<rparr>"

text \<open>The example body without the temperature of the reading.\<close>

definition no_temperature_data :: jsval where
  "no_temperature_data = JObj
     [(''current_weather'', JObj [(''time'', JStr ''2025-06-26T12:00'')]),
      (''hourly'',
        JObj [(''time'', JArr [JStr ''2025-06-26T12:00'', JStr ''2025-06-26T13:00'']),
              (''precipitation'', JArr [JNum 0.1, JNum 0.2]),
              (''cloudcover'', JArr [JNum 25, JNum 35])])]"

definition no_temperature_world :: world where
  "no_temperature_world = example_world
     \<lparr>net_fetch := (\<lambda>url. Inr \<lparr>ok = True, statusText = ''OK'', json = Inr no_temperature_data\<rparr>)\<rparr>"

text \<open>The cache holds the text with one field.\<close>

definition partial_cache_world :: world where
  "partial_cache_world = example_world\<lparr>kv_get := (\<lambda>k. Inr (Some partial_text))\<rparr>"

section \<open>The helpers never throw\<close>

lemma getCachedWeatherData_total:
  "\<exists>v. getCachedWeatherData env = (Inr v, [KvGet CACHE_KEY])"
  by (cases "kv_get env CACHE_KEY")
     (auto simp: getCachedWeatherData_def tryCatch_def bindC_def call_def ret_def
           split: option.splits sum.splits)

lemma setCachedWeatherData_eq:
  "setCachedWeatherData env r =
     (Inr (), [KvPut CACHE_KEY (JSON_stringify env (js_of_record r)) CACHE_TTL])"
  by (simp add: setCachedWeatherData_def tryCatch_def call_def ret_def split: option.splits)

lemma fetchWeatherData_eq:
  "fetchWeatherData env =
     (Inr (case net_fetch env (apiUrl env) of
             Inl e \<Rightarrow> None
           | Inr response \<Rightarrow> caught (fetchWeatherData_body env response)),
      [NetFetch (apiUrl env)])"
  by (simp add: fetchWeatherData_def tryCatch_def bindC_def call_def ret_def caught_def
           split: sum.splits)

lemma fetchWeatherData_part000_eq:
  "fetchWeatherData_part000 env =
     (Inr (case net_fetch env (apiUrl env) of
             Inl e \<Rightarrow> None
           | Inr response \<Rightarrow> caught (fetchWeatherData_body_part000 env response)),
      [NetFetch (apiUrl env)])"
  by (simp add: fetchWeatherData_part000_def tryCatch_def bindC_def call_def ret_def caught_def
           split: sum.splits)

section \<open>The request handler, path by path\<close>

lemma fetch_hit:
  assumes "http_method request \<noteq> ''OPTIONS''"
    and "fst (getCachedWeatherData env) = Inr v"
    and "truthy v"
  shows "fetch env request = (Inr (json_response env v), [KvGet CACHE_KEY])"
proof -
  obtain v' where g: "getCachedWeatherData env = (Inr v', [KvGet CACHE_KEY])"
    using getCachedWeatherData_total by blast
  with assms(2) have "v' = v" by simp
  with g assms(1,3) show ?thesis
    by (simp add: fetch_def tryCatch_def bindC_def ret_def)
qed

lemma fetch_miss:
  assumes "http_method request \<noteq> ''OPTIONS''"
    and "fst (getCachedWeatherData env) = Inr v"
    and "\<not> truthy v"
  shows "fetch env request =
     (case fst (fetchWeatherData env) of
        Inr (Some r) \<Rightarrow>
          (Inr (json_response env (js_of_record r)),
           [KvGet CACHE_KEY, NetFetch (apiUrl env),
            KvPut CACHE_KEY (JSON_stringify env (js_of_record r)) CACHE_TTL])
      | _ \<Rightarrow> (Inr unavailable_response, [KvGet CACHE_KEY, NetFetch (apiUrl env)]))"
proof -
  obtain v' where g: "getCachedWeatherData env = (Inr v', [KvGet CACHE_KEY])"
    using getCachedWeatherData_total by blast
  with assms(2) have "v' = v" by simp
  with g assms(1,3) show ?thesis
    by (simp add: fetch_def tryCatch_def bindC_def ret_def fetchWeatherData_eq
          setCachedWeatherData_eq split: option.splits sum.splits)
qed

lemma scheduled_eq:
  "scheduled env =
     (Inr (),
      NetFetch (apiUrl env) #
      (case fst (fetchWeatherData env) of
         Inr (Some r) \<Rightarrow> [KvPut CACHE_KEY (JSON_stringify env (js_of_record r)) CACHE_TTL]
       | _ \<Rightarrow> []))"
  by (simp add: scheduled_def tryCatch_def bindC_def ret_def fetchWeatherData_eq
        setCachedWeatherData_eq split: option.splits sum.splits)

text \<open>Evaluation of the concrete worlds.\<close>

lemmas world_defs =
  example_world_def cached_world_def down_world_def example_data_def example_now_def
  fallback_data_def fallback_world_def same_hour_data_def same_hour_world_def
  no_temperature_data_def no_temperature_world_def partial_cache_world_def
  example_record_def example_text_def cached_record_def cached_text_def
  partial_value_def partial_text_def demo_parse_def demo_stringify_def
  get_request_def options_request_def failing_put_def

lemmas comp_defs = tryCatch_def bindC_def call_def ret_def bindE_def caught_def

lemmas fetcher_defs =
  fetchWeatherData_body_def incomplete_def opt_chain_def select_index_def build_record_def
  fetchWeatherData_body_part000_def incomplete_part000_def targetTime_def padStart2_def

lemma example_cache_empty:
  "getCachedWeatherData example_world = (Inr JNull, [KvGet CACHE_KEY])"
  by (simp add: getCachedWeatherData_def comp_defs world_defs)

lemma example_fetch:
  "fetchWeatherData example_world = (Inr (Some example_record), [NetFetch (apiUrl example_world)])"
  by (simp add: fetchWeatherData_eq comp_defs fetcher_defs world_defs)

section \<open>The outside parts a handler does not depend on\<close>

lemma fetchWeatherData_body_kv_get:
  "fetchWeatherData_body (env\<lparr>kv_get := g\<rparr>) = fetchWeatherData_body env"
  by (simp add: fetchWeatherData_body_def select_index_def build_record_def fun_eq_iff
        cong: if_cong)

lemma fetchWeatherData_body_kv_put:
  "fetchWeatherData_body (env\<lparr>kv_put := p\<rparr>) = fetchWeatherData_body env"
  by (simp add: fetchWeatherData_body_def select_index_def build_record_def fun_eq_iff
        cong: if_cong)

lemma fetchWeatherData_kv_get [simp]:
  "fetchWeatherData (env\<lparr>kv_get := g\<rparr>) = fetchWeatherData env"
  by (simp add: fetchWeatherData_eq fetchWeatherData_body_kv_get apiUrl_def cong: sum.case_cong)

lemma fetchWeatherData_kv_put [simp]:
  "fetchWeatherData (env\<lparr>kv_put := p\<rparr>) = fetchWeatherData env"
  by (simp add: fetchWeatherData_eq fetchWeatherData_body_kv_put apiUrl_def cong: sum.case_cong)

lemma getCachedWeatherData_kv_put [simp]:
  "getCachedWeatherData (env\<lparr>kv_put := p\<rparr>) = getCachedWeatherData env"
  by (simp add: getCachedWeatherData_def cong: if_cong option.case_cong)

section \<open>Properties of the handlers\<close>

text \<open>
  C3. On a request other than \<^verbatim>\<open>OPTIONS\<close> for which the cache read returns a stored
  record (any truthy value), the handler answers 200 with that value, serialised
  as it was read, as the body; the only outside call is the one cache read: no
  upstream call and no cache write.
\<close>

theorem cache_hit_returns_cached:
  assumes "http_method request \<noteq> ''OPTIONS''"
    and "fst (getCachedWeatherData env) = Inr weatherData"
    and "truthy weatherData"
  shows "fetch env request =
     (Inr \<lparr>status = 200,
           body = Some (JSON_stringify env weatherData),
           headers = (''Content-Type'', ''application/json'') # corsHeaders\<rparr>,
      [KvGet CACHE_KEY])"
  using fetch_hit [OF assms] by (simp add: json_response_def)

theorem cache_hit_returns_cached_witness:
  "http_method get_request \<noteq> ''OPTIONS'' \<and>
   fst (getCachedWeatherData cached_world) = Inr (js_of_record cached_record) \<and>
   truthy (js_of_record cached_record) \<and>
   fetch cached_world get_request =
     (Inr \<lparr>status = 200, body = Some cached_text,
           headers = (''Content-Type'', ''application/json'') # corsHeaders\<rparr>,
      [KvGet ''weather_fukuoka''])"
proof -
  have m: "http_method get_request \<noteq> ''OPTIONS''"
    by (simp add: get_request_def)
  have c: "fst (getCachedWeatherData cached_world) = Inr (js_of_record cached_record)"
    by (simp add: getCachedWeatherData_def comp_defs world_defs)
  have t: "truthy (js_of_record cached_record)"
    by (simp add: js_of_record_def)
  have s: "JSON_stringify cached_world (js_of_record cached_record) = cached_text"
    by (simp add: world_defs js_of_record_def)
  show ?thesis
    using m c t cache_hit_returns_cached [OF m c t] by (simp add: s CACHE_KEY_def)
qed

text \<open>
  C4. When the cache read returns nothing and the upstream call answers with a
  status that is not a success, or the fetch signals unavailable in any other
  way, the handler answers 503 with the body "Unable to fetch weather data" and
  makes no cache write.
\<close>

theorem unavailable_gives_503:
  assumes "http_method request \<noteq> ''OPTIONS''"
    and "fst (getCachedWeatherData env) = Inr cached"
    and "\<not> truthy cached"
    and "(\<exists>response. net_fetch env (apiUrl env) = Inr response \<and> \<not> ok response)
         \<or> fst (fetchWeatherData env) = Inr None"
  shows "fetch env request =
     (Inr \<lparr>status = 503, body = Some ''Unable to fetch weather data'', headers = corsHeaders\<rparr>,
      [KvGet CACHE_KEY, NetFetch (apiUrl env)])"
proof -
  have "fst (fetchWeatherData env) = Inr None"
    using assms(4)
    by (auto simp: fetchWeatherData_eq fetchWeatherData_body_def caught_def)
  with fetch_miss [OF assms(1-3)] show ?thesis
    by (simp add: unavailable_response_def)
qed

theorem unavailable_gives_503_witness:
  "http_method get_request \<noteq> ''OPTIONS'' \<and>
   fst (getCachedWeatherData down_world) = Inr JNull \<and>
   \<not> truthy JNull \<and>
   net_fetch down_world (apiUrl down_world) =
     Inr \<lparr>ok = False, statusText = ''Service Unavailable'',
          json = Inl (Error ''Unexpected end of JSON input'')\<rparr> \<and>
   fetch down_world get_request =
     (Inr \<lparr>status = 503, body = Some ''Unable to fetch weather data'', headers = corsHeaders\<rparr>,
      [KvGet CACHE_KEY, NetFetch (apiUrl down_world)])"
proof -
  have m: "http_method get_request \<noteq> ''OPTIONS''"
    by (simp add: get_request_def)
  have c: "fst (getCachedWeatherData down_world) = Inr JNull"
    by (simp add: getCachedWeatherData_def comp_defs world_defs)
  have t: "\<not> truthy JNull"
    by simp
  have n: "net_fetch down_world (apiUrl down_world) =
     Inr \<lparr>ok = False, statusText = ''Service Unavailable'',
          json = Inl (Error ''Unexpected end of JSON input'')\<rparr>"
    by (simp add: world_defs)
  then have u: "(\<exists>response. net_fetch down_world (apiUrl down_world) = Inr response \<and> \<not> ok response)
         \<or> fst (fetchWeatherData down_world) = Inr None"
    by simp
  show ?thesis
    using m c t n unavailable_gives_503 [OF m c t u] by simp
qed

text \<open>
  C9. A request with method \<^verbatim>\<open>OPTIONS\<close> is answered with status 200, no body, the
  three permissive cross-origin headers and the inbound
  \<^verbatim>\<open>Access-Control-Request-Headers\<close> value as \<^verbatim>\<open>Access-Control-Allow-Headers\<close>,
  whatever the cache and the upstream are; no cache read, cache write or
  upstream call is made.
\<close>

theorem preflight_answered_at_once:
  assumes "http_method request = ''OPTIONS''"
  shows "fetch env request =
     (Inr \<lparr>status = 200, body = None,
           headers =
             [(''Access-Control-Allow-Origin'', ''*''),
              (''Access-Control-Allow-Methods'', ''GET,HEAD,POST,OPTIONS''),
              (''Access-Control-Max-Age'', ''86400''),
              (''Access-Control-Allow-Headers'',
               (case headers_get request ''Access-Control-Request-Headers'' of
                  None \<Rightarrow> [] | Some v \<Rightarrow> v))]\<rparr>,
      [])"
  using assms
  by (auto simp: fetch_def ret_def preflight_response_def corsHeaders_def split: option.splits)

theorem preflight_answered_at_once_witness:
  "http_method options_request = ''OPTIONS'' \<and>
   fetch down_world options_request =
     (Inr \<lparr>status = 200, body = None,
           headers =
             [(''Access-Control-Allow-Origin'', ''*''),
              (''Access-Control-Allow-Methods'', ''GET,HEAD,POST,OPTIONS''),
              (''Access-Control-Max-Age'', ''86400''),
              (''Access-Control-Allow-Headers'', ''Content-Type'')]\<rparr>,
      [])"
proof -
  have m: "http_method options_request = ''OPTIONS''"
    by (simp add: options_request_def)
  have h: "headers_get options_request ''Access-Control-Request-Headers'' = Some ''Content-Type''"
    by (simp add: options_request_def)
  show ?thesis
    using m h preflight_answered_at_once [OF m, where env = down_world]
    by simp
qed

text \<open>
  C6. The timer handler calls the fetcher first and never reads the cache, so
  its run is the same whatever the cache holds; when the fetch succeeds it
  writes the fetched record exactly once, when the fetch signals unavailable it
  makes no write and no other call; it never throws.
\<close>

theorem scheduled_refreshes_unconditionally:
  "\<exists>fetched.
     fetchWeatherData env = (Inr fetched, [NetFetch (apiUrl env)]) \<and>
     scheduled env =
       (Inr (),
        NetFetch (apiUrl env) #
        (case fetched of
           Some r \<Rightarrow> [KvPut CACHE_KEY (JSON_stringify env (js_of_record r)) CACHE_TTL]
         | None \<Rightarrow> [])) \<and>
     scheduled (env\<lparr>kv_get := g\<rparr>) = scheduled env"
proof -
  obtain fetched where f: "fetchWeatherData env = (Inr fetched, [NetFetch (apiUrl env)])"
    by (simp add: fetchWeatherData_eq)
  have "scheduled (env\<lparr>kv_get := g\<rparr>) = scheduled env"
    by (simp add: scheduled_eq apiUrl_def cong: sum.case_cong option.case_cong)
  with f show ?thesis
    by (auto simp: scheduled_eq split: option.splits)
qed

theorem scheduled_refreshes_unconditionally_witness:
  "fetchWeatherData cached_world = (Inr (Some example_record), [NetFetch (apiUrl cached_world)]) \<and>
   scheduled cached_world =
     (Inr (), [NetFetch (apiUrl cached_world), KvPut ''weather_fukuoka'' example_text 14400]) \<and>
   scheduled (cached_world\<lparr>kv_get := (\<lambda>k. Inr None)\<rparr>) = scheduled cached_world"
proof -
  have f: "fetchWeatherData cached_world =
      (Inr (Some example_record), [NetFetch (apiUrl cached_world)])"
    by (simp add: fetchWeatherData_eq comp_defs fetcher_defs world_defs)
  have s: "JSON_stringify cached_world (js_of_record example_record) = example_text"
    by (simp add: world_defs js_of_record_def)
  show ?thesis
    using scheduled_refreshes_unconditionally
            [where env = cached_world and g = "\<lambda>k. Inr None"]
    by (auto simp: f s CACHE_KEY_def CACHE_TTL_def)
qed

text \<open>
  C8. A cache write that fails changes neither the response of the request
  handler nor the outcome of the timer handler: both behave as with a store
  whose writes succeed, and the write operation itself never throws.
\<close>

theorem write_failure_is_swallowed:
  "fetch (env\<lparr>kv_put := p\<rparr>) request = fetch env request \<and>
   scheduled (env\<lparr>kv_put := p\<rparr>) = scheduled env \<and>
   fst (scheduled env) = Inr () \<and>
   fst (setCachedWeatherData env r) = Inr ()"
proof -
  have "fetch (env\<lparr>kv_put := p\<rparr>) request = fetch env request"
    by (simp add: fetch_def setCachedWeatherData_eq json_response_def
          cong: if_cong option.case_cong)
  moreover have "scheduled (env\<lparr>kv_put := p\<rparr>) = scheduled env"
    by (simp add: scheduled_eq apiUrl_def cong: sum.case_cong option.case_cong)
  ultimately show ?thesis
    by (simp add: scheduled_eq setCachedWeatherData_eq)
qed

theorem write_failure_is_swallowed_witness:
  "fetch (example_world\<lparr>kv_put := failing_put\<rparr>) get_request =
     (Inr \<lparr>status = 200, body = Some example_text,
           headers = (''Content-Type'', ''application/json'') # corsHeaders\<rparr>,
      [KvGet CACHE_KEY, NetFetch (apiUrl example_world), KvPut CACHE_KEY example_text CACHE_TTL]) \<and>
   fst (scheduled (example_world\<lparr>kv_put := failing_put\<rparr>)) = Inr ()"
proof -
  have m: "http_method get_request \<noteq> ''OPTIONS''"
    by (simp add: get_request_def)
  have s: "JSON_stringify example_world (js_of_record example_record) = example_text"
    by (simp add: world_defs js_of_record_def)
  have "fetch example_world get_request =
     (Inr \<lparr>status = 200, body = Some example_text,
           headers = (''Content-Type'', ''application/json'') # corsHeaders\<rparr>,
      [KvGet CACHE_KEY, NetFetch (apiUrl example_world), KvPut CACHE_KEY example_text CACHE_TTL])"
    using fetch_miss [OF m, of example_world JNull]
    by (simp add: example_cache_empty example_fetch s json_response_def)
  then show ?thesis
    using write_failure_is_swallowed
            [where env = example_world and p = failing_put and request = get_request]
    by simp
qed

section \<open>Index selection and record construction\<close>

lemma findIndexFrom_none:
  "\<forall>x\<in>set xs. \<not> p x \<Longrightarrow> findIndexFrom p xs k = - 1"
  by (induction xs arbitrary: k) auto

lemma findIndexFrom_first:
  "i < length xs \<Longrightarrow> p (xs ! i) \<Longrightarrow> \<forall>j<i. \<not> p (xs ! j) \<Longrightarrow>
   findIndexFrom p xs k = k + int i"
proof (induction xs arbitrary: i k)
  case Nil
  then show ?case by simp
next
  case (Cons x xs)
  show ?case
  proof (cases i)
    case 0
    with Cons.prems show ?thesis by simp
  next
    case (Suc n)
    with Cons.prems have "\<not> p x" by auto
    moreover have "findIndexFrom p xs (k + 1) = (k + 1) + int n"
      using Cons.prems Suc by (intro Cons.IH) auto
    ultimately show ?thesis using Suc by simp
  qed
qed

lemma findIndexFrom_found:
  "\<exists>x\<in>set xs. p x \<Longrightarrow>
   \<exists>i<length xs. p (xs ! i) \<and> (\<forall>j<i. \<not> p (xs ! j)) \<and> findIndexFrom p xs k = k + int i"
proof (induction xs arbitrary: k)
  case Nil
  then show ?case by simp
next
  case (Cons x xs)
  show ?case
  proof (cases "p x")
    case True
    then show ?thesis by (intro exI [of _ 0]) simp
  next
    case False
    with Cons.prems have "\<exists>y\<in>set xs. p y" by auto
    from Cons.IH [OF this, of "k + 1"] obtain i where
      i: "i < length xs" "p (xs ! i)" "\<forall>j<i. \<not> p (xs ! j)"
         "findIndexFrom p xs (k + 1) = k + 1 + int i"
      by blast
    have "\<forall>j<Suc i. \<not> p ((x # xs) ! j)"
      using False i(3) by (auto simp: less_Suc_eq_0_disj)
    with i False show ?thesis
      by (intro exI [of _ "Suc i"]) simp
  qed
qed

lemma strict_eq_JStr [simp]: "strict_eq x (JStr s) \<longleftrightarrow> x = JStr s"
  by (cases x) auto

lemma strict_eq_JUndefined [simp]: "strict_eq x JUndefined \<longleftrightarrow> x = JUndefined"
  by (cases x) auto

lemma get_prop_Inr_not_nullish: "get_prop v k = Inr x \<Longrightarrow> \<not> nullish v"
  by (cases v) auto

lemma truthy_not_nullish: "truthy v \<Longrightarrow> \<not> nullish v"
  by (cases v) auto


lemma get_prop_Inl_nullish: "get_prop v k = Inl e \<Longrightarrow> nullish v"
  by (cases v) auto

lemma get_prop_nullish: "nullish v \<Longrightarrow> \<exists>e. get_prop v k = Inl e"
  by (cases v) auto

lemma opt_chain_Inl_nullish: "opt_chain v a b = Inl e \<Longrightarrow> nullish v"
  by (auto simp: opt_chain_def bindE_def split: sum.splits if_splits
        dest: get_prop_Inl_nullish)

lemma incomplete_Inl_nullish: "incomplete d = Inl e \<Longrightarrow> nullish d"
  by (auto simp: incomplete_def bindE_def split: sum.splits if_splits
        dest: get_prop_Inl_nullish opt_chain_Inl_nullish)

lemma incomplete_False:
  assumes "incomplete d = Inr False"
  shows "\<exists>cw hourly ps cs tv.
     get_prop d ''current_weather'' = Inr cw \<and> truthy cw \<and>
     get_prop d ''hourly'' = Inr hourly \<and>
     get_prop hourly ''precipitation'' = Inr ps \<and> truthy ps \<and>
     get_prop hourly ''cloudcover'' = Inr cs \<and> truthy cs \<and>
     get_prop hourly ''time'' = Inr tv \<and> truthy tv"
  using assms
  by (auto simp: incomplete_def opt_chain_def bindE_def split: sum.splits if_splits)

text \<open>Both fetchers once the presence checks have passed.\<close>

lemma body_checked:
  assumes "ok response" "json response = Inr d"
    and "get_prop d ''current_weather'' = Inr cw" "truthy cw"
    and "get_prop cw ''time'' = Inr currentTime"
    and "get_prop d ''hourly'' = Inr hourly"
    and "get_prop hourly ''precipitation'' = Inr ps" "truthy ps"
    and "get_prop hourly ''cloudcover'' = Inr cs" "truthy cs"
    and "get_prop hourly ''time'' = Inr tv" "truthy tv"
  shows "fetchWeatherData_body env response =
           bindE (select_index env currentTime tv) (build_record env d currentTime)"
    and "fetchWeatherData_body_part000 env response =
           bindE (findIndex tv (\<lambda>t. strict_eq t currentTime)) (\<lambda>index.
             if index = - 1 then Inr None else build_record env d currentTime index)"
proof -
  have h: "\<not> nullish hourly" "\<not> nullish cw"
    using assms get_prop_Inr_not_nullish truthy_not_nullish by blast+
  show "fetchWeatherData_body env response =
           bindE (select_index env currentTime tv) (build_record env d currentTime)"
    using assms h
    by (simp add: fetchWeatherData_body_def incomplete_def opt_chain_def bindE_def)
  show "fetchWeatherData_body_part000 env response =
           bindE (findIndex tv (\<lambda>t. strict_eq t currentTime)) (\<lambda>index.
             if index = - 1 then Inr None else build_record env d currentTime index)"
    using assms h
    by (simp add: fetchWeatherData_body_part000_def incomplete_part000_def opt_chain_def
          bindE_def split: sum.splits)
qed


lemma select_index_exact:
  assumes "i < length ts" "strict_eq (ts ! i) currentTime"
    and "\<forall>j<i. \<not> strict_eq (ts ! j) currentTime"
  shows "select_index env currentTime (JArr ts) = Inr (int i)"
  using findIndexFrom_first [of i ts "\<lambda>t. strict_eq t currentTime" 0] assms
  by (simp add: select_index_def bindE_def)

lemma build_record_arrays:
  assumes "get_prop d ''current_weather'' = Inr cw"
    and "get_prop cw ''temperature'' = Inr temp"
    and "get_prop d ''hourly'' = Inr hourly"
    and "get_prop hourly ''precipitation'' = Inr (JArr ps)"
    and "get_prop hourly ''cloudcover'' = Inr (JArr cs)"
    and "i < length ps" "i < length cs" "ps ! i \<noteq> JUndefined" "cs ! i \<noteq> JUndefined"
  shows "build_record env d currentTime (int i) =
     Inr (Some \<lparr>temperature = temp, precipitation = ps ! i, cloudcover = cs ! i,
                 timestamp = currentTime, lastUpdated = JStr (now_iso env)\<rparr>)"
  using assms by (simp add: build_record_def bindE_def)

text \<open>
  C1. When the cache read returns nothing, the upstream call succeeds, and the
  body carries the instantaneous reading and the three hourly arrays with the
  reported time as a label of the hourly time array (first at position \<open>i\<close>) and
  a value at that position in both other arrays, the handler answers 200 with
  the record made of the reading's temperature and time and of
  \<^verbatim>\<open>precipitation[i]\<close> and \<^verbatim>\<open>cloudcover[i]\<close>, and writes that same record to the
  cache exactly once. The witness is the example of the specification.
\<close>

theorem miss_with_exact_match_serves_and_stores:
  assumes req: "http_method request \<noteq> ''OPTIONS''"
    and miss: "fst (getCachedWeatherData env) = Inr cached" "\<not> truthy cached"
    and up: "net_fetch env (apiUrl env) = Inr response"
    and ok: "ok response" "json response = Inr d"
    and cw: "get_prop d ''current_weather'' = Inr cw" "truthy cw"
    and temp: "get_prop cw ''temperature'' = Inr temp"
    and time: "get_prop cw ''time'' = Inr (JStr currentTime)"
    and hourly: "get_prop d ''hourly'' = Inr hourly"
    and ts: "get_prop hourly ''time'' = Inr (JArr ts)"
    and ps: "get_prop hourly ''precipitation'' = Inr (JArr ps)"
    and cs: "get_prop hourly ''cloudcover'' = Inr (JArr cs)"
    and match: "i < length ts" "ts ! i = JStr currentTime" "\<forall>j<i. ts ! j \<noteq> JStr currentTime"
    and vals: "i < length ps" "i < length cs" "ps ! i \<noteq> JUndefined" "cs ! i \<noteq> JUndefined"
    and r: "r = \<lparr>temperature = temp, precipitation = ps ! i, cloudcover = cs ! i,
                  timestamp = JStr currentTime, lastUpdated = JStr (now_iso env)\<rparr>"
  shows "fetch env request =
     (Inr \<lparr>status = 200,
           body = Some (JSON_stringify env (js_of_record r)),
           headers = (''Content-Type'', ''application/json'') # corsHeaders\<rparr>,
      [KvGet CACHE_KEY, NetFetch (apiUrl env),
       KvPut CACHE_KEY (JSON_stringify env (js_of_record r)) CACHE_TTL])"
proof -
  have "fetchWeatherData_body env response =
          bindE (select_index env (JStr currentTime) (JArr ts))
            (build_record env d (JStr currentTime))"
    using body_checked(1) [OF ok cw time hourly ps _ cs _ ts] by simp
  moreover have "select_index env (JStr currentTime) (JArr ts) = Inr (int i)"
    using match by (intro select_index_exact) simp_all
  moreover have "build_record env d (JStr currentTime) (int i) = Inr (Some r)"
    using build_record_arrays [OF cw(1) temp hourly ps cs vals] r by simp
  ultimately have "fst (fetchWeatherData env) = Inr (Some r)"
    using up by (simp add: fetchWeatherData_eq bindE_def caught_def)
  with fetch_miss [OF req miss] show ?thesis
    by (simp add: json_response_def)
qed

theorem miss_with_exact_match_serves_and_stores_witness:
  "fst (getCachedWeatherData example_world) = Inr JNull \<and>
   net_fetch example_world (apiUrl example_world) =
     Inr \<lparr>ok = True, statusText = ''OK'', json = Inr example_data\<rparr> \<and>
   example_record =
     \<lparr>temperature = JNum 23.1, precipitation = JNum 0.1, cloudcover = JNum 25,
      timestamp = JStr ''2025-06-26T12:00'', lastUpdated = JStr (now_iso example_world)\<rparr> \<and>
   fetch example_world get_request =
     (Inr \<lparr>status = 200, body = Some example_text,
           headers = (''Content-Type'', ''application/json'') # corsHeaders\<rparr>,
      [KvGet CACHE_KEY, NetFetch (apiUrl example_world), KvPut CACHE_KEY example_text CACHE_TTL])"
proof -
  let ?cw = "JObj [(''temperature'', JNum 23.1), (''time'', JStr ''2025-06-26T12:00'')]"
  let ?ts = "[JStr ''2025-06-26T12:00'', JStr ''2025-06-26T13:00'']"
  let ?ps = "[JNum 0.1, JNum 0.2]"
  let ?cs = "[JNum 25, JNum 35]"
  let ?hourly = "JObj [(''time'', JArr ?ts), (''precipitation'', JArr ?ps),
                       (''cloudcover'', JArr ?cs)]"
  let ?response = "\<lparr>ok = True, statusText = ''OK'', json = Inr example_data\<rparr>"
  have req: "http_method get_request \<noteq> ''OPTIONS''"
    by (simp add: get_request_def)
  have miss: "fst (getCachedWeatherData example_world) = Inr JNull" "\<not> truthy JNull"
    by (simp_all add: example_cache_empty)
  have up: "net_fetch example_world (apiUrl example_world) = Inr ?response"
    by (simp add: example_world_def)
  have ok: "ok ?response" "json ?response = Inr example_data"
    by simp_all
  have cw: "get_prop example_data ''current_weather'' = Inr ?cw" "truthy ?cw"
    by (simp_all add: example_data_def)
  have temp: "get_prop ?cw ''temperature'' = Inr (JNum 23.1)"
    by simp
  have time: "get_prop ?cw ''time'' = Inr (JStr ''2025-06-26T12:00'')"
    by simp
  have hourly: "get_prop example_data ''hourly'' = Inr ?hourly"
    by (simp add: example_data_def)
  have ts: "get_prop ?hourly ''time'' = Inr (JArr ?ts)"
    and ps: "get_prop ?hourly ''precipitation'' = Inr (JArr ?ps)"
    and cs: "get_prop ?hourly ''cloudcover'' = Inr (JArr ?cs)"
    by simp_all
  have match: "0 < length ?ts" "?ts ! 0 = JStr ''2025-06-26T12:00''"
      "\<forall>j<0. ?ts ! j \<noteq> JStr ''2025-06-26T12:00''"
    by simp_all
  have vals: "0 < length ?ps" "0 < length ?cs" "?ps ! 0 \<noteq> JUndefined" "?cs ! 0 \<noteq> JUndefined"
    by simp_all
  have r: "example_record =
     \<lparr>temperature = JNum 23.1, precipitation = ?ps ! 0, cloudcover = ?cs ! 0,
      timestamp = JStr ''2025-06-26T12:00'', lastUpdated = JStr (now_iso example_world)\<rparr>"
    by (simp add: example_record_def example_world_def)
  have s: "JSON_stringify example_world (js_of_record example_record) = example_text"
    by (simp add: world_defs js_of_record_def)
  from miss_with_exact_match_serves_and_stores
    [OF req miss up ok cw temp time hourly ts ps cs match vals r]
  show ?thesis
    using miss(1) up r by (simp add: s)
qed

section \<open>The two fetchers compared\<close>

lemma part000_incomplete:
  assumes "incomplete d = Inr True" "json response = Inr d"
  shows "caught (fetchWeatherData_body_part000 env response) = None"
proof (cases "ok response")
  case False
  then show ?thesis by (simp add: fetchWeatherData_body_part000_def caught_def)
next
  case True
  show ?thesis
  proof (cases "fetchWeatherData_body_part000 env response")
    case (Inl e)
    then show ?thesis by (simp add: caught_def)
  next
    case (Inr res)
    then show ?thesis
      using assms True
      by (auto simp: fetchWeatherData_body_part000_def incomplete_part000_def incomplete_def
            bindE_def caught_def split: sum.splits if_splits)
  qed
qed


lemma findIndexFrom_list_ex:
  assumes "list_ex p xs"
  shows "\<exists>i<length xs. p (xs ! i) \<and> (\<forall>j<i. \<not> p (xs ! j)) \<and> findIndexFrom p xs 0 = int i"
  using findIndexFrom_found [of xs p 0] assms by (simp add: list_ex_iff)

lemma findIndexFrom_not_list_ex:
  "\<not> list_ex p xs \<Longrightarrow> findIndexFrom p xs 0 = - 1"
  by (simp add: findIndexFrom_none list_ex_iff)

lemma bodies_agree:
  assumes "\<not> (ok response \<and>
              (case json response of
                 Inl e \<Rightarrow> False
               | Inr d \<Rightarrow>
                   incomplete d = Inr False \<and>
                   (case opt_chain d ''hourly'' ''time'' of
                      Inr (JArr ts) \<Rightarrow> \<not> exact_match d
                    | _ \<Rightarrow> False)))"
  shows "caught (fetchWeatherData_body env response) =
         caught (fetchWeatherData_body_part000 env response)"
proof (cases "ok response")
  case False
  then show ?thesis
    by (simp add: fetchWeatherData_body_def fetchWeatherData_body_part000_def)
next
  case ok: True
  show ?thesis
  proof (cases "json response")
    case (Inl e)
    with ok show ?thesis
      by (simp add: fetchWeatherData_body_def fetchWeatherData_body_part000_def bindE_def)
  next
    case d: (Inr d)
    show ?thesis
    proof (cases "incomplete d")
      case (Inl e)
      then have "nullish d" by (rule incomplete_Inl_nullish)
      then obtain e' where "get_prop d ''current_weather'' = Inl e'"
        using get_prop_nullish by blast
      with ok d Inl show ?thesis
        by (simp add: fetchWeatherData_body_def fetchWeatherData_body_part000_def
              opt_chain_def bindE_def caught_def)
    next
      case (Inr inc)
      show ?thesis
      proof (cases inc)
        case True
        with Inr have i: "incomplete d = Inr True" by simp
        have "caught (fetchWeatherData_body env response) = None"
          using ok d i by (simp add: fetchWeatherData_body_def bindE_def caught_def)
        with part000_incomplete [OF i d] show ?thesis by simp
      next
        case False
        with Inr have i: "incomplete d = Inr False" by simp
        from incomplete_False [OF i] obtain cw hourly ps cs tv where
          p: "get_prop d ''current_weather'' = Inr cw" "truthy cw"
             "get_prop d ''hourly'' = Inr hourly"
             "get_prop hourly ''precipitation'' = Inr ps" "truthy ps"
             "get_prop hourly ''cloudcover'' = Inr cs" "truthy cs"
             "get_prop hourly ''time'' = Inr tv" "truthy tv"
          by blast
        obtain currentTime where ct: "get_prop cw ''time'' = Inr currentTime"
          using p(2) by (cases cw) auto
        note b = body_checked [OF ok d p(1,2) ct p(3-9), of env]
        have nn: "\<not> nullish hourly" "\<not> nullish cw"
          using p get_prop_Inr_not_nullish truthy_not_nullish by blast+
        show ?thesis
        proof (cases "\<exists>ts. tv = JArr ts")
          case False
          then have "\<exists>e. findIndex tv (\<lambda>t. strict_eq t currentTime) = Inl e"
            by (cases tv) auto
          then show ?thesis
            by (auto simp: b select_index_def bindE_def caught_def)
        next
          case True
          then obtain ts where tv: "tv = JArr ts" by blast
          have "exact_match d"
            using assms ok d i p nn tv by (simp add: opt_chain_def bindE_def)
          then have "list_ex (\<lambda>t. strict_eq t currentTime) ts"
            using p ct nn tv by (simp add: exact_match_def opt_chain_def bindE_def)
          from findIndexFrom_list_ex [OF this] obtain k where
            "findIndexFrom (\<lambda>t. strict_eq t currentTime) ts 0 = int k"
            by blast
          then show ?thesis
            by (simp add: b tv select_index_def bindE_def)
        qed
      qed
    qed
  qed
qed

text \<open>
  C10. The fetcher of \<^verbatim>\<open>src/src/worker.ts\<close> and the fetcher of
  \<^verbatim>\<open>src/unnamed/part_000\<close> return the same result and make the same call
  whenever the upstream fails in transport, answers without success, sends a
  body that cannot be parsed, sends one that lacks the reading or one of the
  three hourly values, or sends one whose hourly time array holds the
  reading's time; they can differ only on a successful response that has all
  four parts and no label equal to the reading's time.
\<close>

theorem fetchers_agree_off_unmatched:
  "(\<not> unmatched_response env \<longrightarrow> fetchWeatherData env = fetchWeatherData_part000 env) \<and>
   ((\<exists>e. net_fetch env (apiUrl env) = Inl e) \<longrightarrow> \<not> unmatched_response env) \<and>
   (\<forall>response. net_fetch env (apiUrl env) = Inr response \<and>
      (\<not> ok response \<or>
       (\<exists>e. json response = Inl e) \<or>
       (\<exists>d. json response = Inr d \<and> (incomplete d = Inr True \<or> exact_match d)))
      \<longrightarrow> \<not> unmatched_response env)"
proof (intro conjI impI allI)
  assume n: "\<not> unmatched_response env"
  show "fetchWeatherData env = fetchWeatherData_part000 env"
  proof (cases "net_fetch env (apiUrl env)")
    case (Inl e)
    then show ?thesis
      by (simp add: fetchWeatherData_eq fetchWeatherData_part000_eq)
  next
    case (Inr response)
    with n have "caught (fetchWeatherData_body env response) =
                 caught (fetchWeatherData_body_part000 env response)"
      by (intro bodies_agree) (simp add: unmatched_response_def)
    with Inr show ?thesis
      by (simp add: fetchWeatherData_eq fetchWeatherData_part000_eq)
  qed
next
  assume "\<exists>e. net_fetch env (apiUrl env) = Inl e"
  then show "\<not> unmatched_response env"
    by (auto simp: unmatched_response_def)
next
  fix response
  assume "net_fetch env (apiUrl env) = Inr response \<and>
      (\<not> ok response \<or>
       (\<exists>e. json response = Inl e) \<or>
       (\<exists>d. json response = Inr d \<and> (incomplete d = Inr True \<or> exact_match d)))"
  then show "\<not> unmatched_response env"
    by (auto simp: unmatched_response_def split: sum.splits jsval.splits)
qed

theorem fetchers_agree_off_unmatched_witness:
  "\<not> unmatched_response example_world \<and>
   fetchWeatherData example_world = fetchWeatherData_part000 example_world \<and>
   fetchWeatherData_part000 example_world =
     (Inr (Some example_record), [NetFetch (apiUrl example_world)]) \<and>
   \<not> unmatched_response down_world \<and>
   fetchWeatherData down_world = fetchWeatherData_part000 down_world \<and>
   unmatched_response fallback_world \<and>
   fetchWeatherData fallback_world \<noteq> fetchWeatherData_part000 fallback_world"
proof -
  have a: "\<not> unmatched_response example_world"
    by (simp add: unmatched_response_def exact_match_def incomplete_def opt_chain_def
          comp_defs world_defs)
  have b: "\<not> unmatched_response down_world"
    by (simp add: unmatched_response_def world_defs)
  have c: "unmatched_response fallback_world"
    by (simp add: unmatched_response_def exact_match_def incomplete_def opt_chain_def
          comp_defs world_defs)
  have d: "fetchWeatherData fallback_world \<noteq> fetchWeatherData_part000 fallback_world"
    by (simp add: fetchWeatherData_eq fetchWeatherData_part000_eq comp_defs fetcher_defs
          world_defs)
  show ?thesis
    using a b c d example_fetch
      fetchers_agree_off_unmatched [of example_world]
      fetchers_agree_off_unmatched [of down_world]
    by simp
qed

section \<open>Which index is read\<close>

lemma select_index_fallback:
  assumes "\<forall>t\<in>set ts. \<not> strict_eq t currentTime"
  shows "select_index env currentTime (JArr ts) =
     (case date_utc env currentTime of
        None \<Rightarrow> Inl (Error ''Invalid time value'')
      | Some (currentHour, isoString) \<Rightarrow>
          (if findIndexFrom
                (\<lambda>t. t = JStr (targetTime (takeWhile (\<lambda>c. c \<noteq> CHR ''T'') isoString) currentHour))
                ts 0 = - 1
           then (if toString_throws currentTime \<or> list_ex toString_throws (take 3 ts)
                 then Inl (Error ''Cannot convert object to primitive value'')
                 else Inr 0)
           else Inr (findIndexFrom
                (\<lambda>t. t = JStr (targetTime (takeWhile (\<lambda>c. c \<noteq> CHR ''T'') isoString) currentHour))
                ts 0)))"
  using findIndexFrom_none [OF assms, of 0]
  by (simp add: select_index_def bindE_def split: option.splits)


lemma index_selection_code:
  assumes up: "net_fetch env (apiUrl env) = Inr response"
    and ok: "ok response" "json response = Inr d"
    and cw: "get_prop d ''current_weather'' = Inr cw" "truthy cw"
    and time: "get_prop cw ''time'' = Inr currentTime"
    and hourly: "get_prop d ''hourly'' = Inr hourly"
    and ps: "get_prop hourly ''precipitation'' = Inr ps" "truthy ps"
    and cs: "get_prop hourly ''cloudcover'' = Inr cs" "truthy cs"
    and ts: "get_prop hourly ''time'' = Inr (JArr ts)"
  shows
    "(\<forall>i. i < length ts \<and> strict_eq (ts ! i) currentTime \<and>
          (\<forall>j<i. \<not> strict_eq (ts ! j) currentTime) \<longrightarrow>
        fst (fetchWeatherData env) = Inr (caught (build_record env d currentTime (int i))) \<and>
        fst (fetchWeatherData_part000 env) =
          Inr (caught (build_record env d currentTime (int i)))) \<and>
     ((\<forall>t\<in>set ts. \<not> strict_eq t currentTime) \<longrightarrow>
        fst (fetchWeatherData_part000 env) = Inr None \<and>
        (date_utc env currentTime = None \<longrightarrow> fst (fetchWeatherData env) = Inr None) \<and>
        (\<forall>currentHour isoString target.
           date_utc env currentTime = Some (currentHour, isoString) \<and>
           target = JStr (targetTime (takeWhile (\<lambda>c. c \<noteq> CHR ''T'') isoString) currentHour) \<longrightarrow>
           (\<forall>j. j < length ts \<and> ts ! j = target \<and> (\<forall>k<j. ts ! k \<noteq> target) \<longrightarrow>
              fst (fetchWeatherData env) =
                Inr (caught (build_record env d currentTime (int j)))) \<and>
           (target \<notin> set ts \<and> \<not> toString_throws currentTime \<and>
              \<not> list_ex toString_throws (take 3 ts) \<longrightarrow>
              fst (fetchWeatherData env) = Inr (caught (build_record env d currentTime 0))) \<and>
           (target \<notin> set ts \<and>
              (toString_throws currentTime \<or> list_ex toString_throws (take 3 ts)) \<longrightarrow>
              fst (fetchWeatherData env) = Inr None)))"
proof -
  note b = body_checked [OF ok cw time hourly ps cs ts, of env, simplified]
  have w: "fst (fetchWeatherData env) =
      Inr (caught (bindE (select_index env currentTime (JArr ts))
                     (build_record env d currentTime)))"
    using up by (simp add: fetchWeatherData_eq b(1))
  have q: "fst (fetchWeatherData_part000 env) =
      Inr (caught (if findIndexFrom (\<lambda>t. strict_eq t currentTime) ts 0 = - 1 then Inr None
                   else build_record env d currentTime
                          (findIndexFrom (\<lambda>t. strict_eq t currentTime) ts 0)))"
    using up by (simp add: fetchWeatherData_part000_eq b(2) bindE_def)
  have exact: "fst (fetchWeatherData env) = Inr (caught (build_record env d currentTime (int i))) \<and>
        fst (fetchWeatherData_part000 env) =
          Inr (caught (build_record env d currentTime (int i)))"
    if "i < length ts" "strict_eq (ts ! i) currentTime"
       "\<forall>j<i. \<not> strict_eq (ts ! j) currentTime" for i
    using that select_index_exact [OF that, of env]
      findIndexFrom_first [of i ts "\<lambda>t. strict_eq t currentTime" 0]
    by (simp add: w q bindE_def)
  have none: "fst (fetchWeatherData_part000 env) = Inr None"
    if "\<forall>t\<in>set ts. \<not> strict_eq t currentTime"
    using findIndexFrom_none [OF that, of 0] by (simp add: q caught_def)
  have invalid: "fst (fetchWeatherData env) = Inr None"
    if "\<forall>t\<in>set ts. \<not> strict_eq t currentTime" "date_utc env currentTime = None"
    using that by (simp add: w select_index_fallback bindE_def caught_def)
  have hour: "fst (fetchWeatherData env) = Inr (caught (build_record env d currentTime (int j)))"
    if "\<forall>t\<in>set ts. \<not> strict_eq t currentTime"
       "date_utc env currentTime = Some (currentHour, isoString)"
       "target = JStr (targetTime (takeWhile (\<lambda>c. c \<noteq> CHR ''T'') isoString) currentHour)"
       "j < length ts" "ts ! j = target" "\<forall>k<j. ts ! k \<noteq> target"
    for currentHour isoString target j
    using that findIndexFrom_first [of j ts "\<lambda>t. t = target" 0]
    by (simp add: w select_index_fallback bindE_def)
  have first: "fst (fetchWeatherData env) = Inr (caught (build_record env d currentTime 0))"
    if "\<forall>t\<in>set ts. \<not> strict_eq t currentTime"
       "date_utc env currentTime = Some (currentHour, isoString)"
       "target = JStr (targetTime (takeWhile (\<lambda>c. c \<noteq> CHR ''T'') isoString) currentHour)"
       "target \<notin> set ts" "\<not> toString_throws currentTime"
       "\<not> list_ex toString_throws (take 3 ts)"
    for currentHour isoString target
    using that findIndexFrom_none [of ts "\<lambda>t. t = target" 0]
    by (auto simp: w select_index_fallback bindE_def)
  have throws: "fst (fetchWeatherData env) = Inr None"
    if "\<forall>t\<in>set ts. \<not> strict_eq t currentTime"
       "date_utc env currentTime = Some (currentHour, isoString)"
       "target = JStr (targetTime (takeWhile (\<lambda>c. c \<noteq> CHR ''T'') isoString) currentHour)"
       "target \<notin> set ts"
       "toString_throws currentTime \<or> list_ex toString_throws (take 3 ts)"
    for currentHour isoString target
    using that findIndexFrom_none [of ts "\<lambda>t. t = target" 0]
    by (auto simp: w select_index_fallback bindE_def caught_def)
  show ?thesis
    apply (intro conjI allI impI)
    subgoal for i using exact [of i] by simp
    subgoal for i using exact [of i] by simp
    subgoal using none by simp
    subgoal using invalid by simp
    subgoal for currentHour isoString target j using hour [of currentHour isoString target j] by simp
    subgoal for currentHour isoString target using first [of currentHour isoString target] by simp
    subgoal for currentHour isoString target using throws [of currentHour isoString target] by simp
    done
qed


lemma nat_to_string_12: "nat_to_string 12 = ''12''"
  by code_simp

lemma digit_chars:
  "char_of (48::nat) = CHR ''0''" "char_of (49::nat) = CHR ''1''" "char_of (50::nat) = CHR ''2''"
  "char_of (51::nat) = CHR ''3''" "char_of (52::nat) = CHR ''4''" "char_of (53::nat) = CHR ''5''"
  "char_of (54::nat) = CHR ''6''" "char_of (55::nat) = CHR ''7''" "char_of (56::nat) = CHR ''8''"
  "char_of (57::nat) = CHR ''9''"
  by code_simp+

lemma digit_char_below_10:
  "\<forall>n\<in>{..<10::nat}. char_of (48 + n) = ''0123456789'' ! n"
  by (simp add: lessThan_nat_numeral lessThan_Suc digit_chars)

lemma digit_char: "(n::nat) < 10 \<Longrightarrow> char_of (48 + n) = ''0123456789'' ! n"
  using digit_char_below_10 by simp

text \<open>The label of an hour below 100, digit by digit.\<close>

lemma targetTime_two_digits:
  assumes "h < 100"
  shows "targetTime date h =
     date @ ''T'' @ [''0123456789'' ! (h div 10), ''0123456789'' ! (h mod 10)] @ '':00''"
proof (cases "h < 10")
  case True
  then show ?thesis
    by (simp add: targetTime_def padStart2_def nat_to_string.simps [of h] digit_char)
next
  case False
  with assms have "h div 10 < 10" "0 < h div 10" by auto
  with False show ?thesis
    by (simp add: targetTime_def padStart2_def nat_to_string.simps [of h]
          nat_to_string.simps [of "h div 10"] digit_char)
qed

text \<open>What reading both hourly arrays at a position gives.\<close>

lemma build_record_at:
  assumes "get_prop d ''current_weather'' = Inr cw"
    and "get_prop cw ''temperature'' = Inr temp"
    and "get_prop d ''hourly'' = Inr hourly"
    and "get_prop hourly ''precipitation'' = Inr (JArr ps)"
    and "get_prop hourly ''cloudcover'' = Inr (JArr cs)"
  shows "build_record env d currentTime (int k) =
     Inr (if k < length ps \<and> k < length cs \<and> ps ! k \<noteq> JUndefined \<and> cs ! k \<noteq> JUndefined
          then Some \<lparr>temperature = temp, precipitation = ps ! k, cloudcover = cs ! k,
                      timestamp = currentTime, lastUpdated = JStr (now_iso env)\<rparr>
          else None)"
  using assms by (simp add: build_record_def bindE_def)

text \<open>
  C2, as the code has it. The body has passed the presence checks and its
  three hourly values are arrays \<open>ts\<close>, \<open>ps\<close>, \<open>cs\<close>. Reading at position \<open>k\<close>,
  written \<open>read_at k\<close>, gives the record of the reading's temperature and time and of
  \<open>ps ! k\<close> and \<open>cs ! k\<close>, and no record when either array has no value there.
  When a label strictly equals the reading's time, both fetchers read at the
  first such position. When none does, the fetcher of \<^verbatim>\<open>src/unnamed/part_000\<close>
  returns no record, while the fetcher of \<^verbatim>\<open>src/src/worker.ts\<close> falls back: it
  returns no record when the time is not a valid date; else it reads at the
  first position of the label made of the date, \<^verbatim>\<open>T\<close>, the two digits of the UTC
  hour and \<^verbatim>\<open>:00\<close>; else, when the message it logs can be built, at position 0,
  and when that message cannot be built it returns no record. The message can
  always be built when the time and the labels are strings; it cannot when the
  time is an object with an own property \<^verbatim>\<open>toString\<close>.
\<close>

theorem index_selection:
  assumes up: "net_fetch env (apiUrl env) = Inr response"
    and ok: "ok response" "json response = Inr d"
    and cw: "get_prop d ''current_weather'' = Inr cw" "truthy cw"
    and temp: "get_prop cw ''temperature'' = Inr temp"
    and time: "get_prop cw ''time'' = Inr currentTime"
    and hourly: "get_prop d ''hourly'' = Inr hourly"
    and ts: "get_prop hourly ''time'' = Inr (JArr ts)"
    and ps: "get_prop hourly ''precipitation'' = Inr (JArr ps)"
    and cs: "get_prop hourly ''cloudcover'' = Inr (JArr cs)"
    and read_at: "\<forall>k. read_at k =
       (if k < length ps \<and> k < length cs \<and> ps ! k \<noteq> JUndefined \<and> cs ! k \<noteq> JUndefined
        then Some \<lparr>temperature = temp, precipitation = ps ! k, cloudcover = cs ! k,
                    timestamp = currentTime, lastUpdated = JStr (now_iso env)\<rparr>
        else None)"
  shows
    "(\<forall>i. i < length ts \<and> strict_eq (ts ! i) currentTime \<and>
          (\<forall>j<i. \<not> strict_eq (ts ! j) currentTime) \<longrightarrow>
        fst (fetchWeatherData env) = Inr (read_at i) \<and>
        fst (fetchWeatherData_part000 env) = Inr (read_at i)) \<and>
     ((\<forall>t\<in>set ts. \<not> strict_eq t currentTime) \<longrightarrow>
        fst (fetchWeatherData_part000 env) = Inr None \<and>
        (date_utc env currentTime = None \<longrightarrow> fst (fetchWeatherData env) = Inr None) \<and>
        (\<forall>currentHour isoString target.
           date_utc env currentTime = Some (currentHour, isoString) \<and> currentHour < 100 \<and>
           target = JStr (takeWhile (\<lambda>c. c \<noteq> CHR ''T'') isoString @ ''T'' @
                          [''0123456789'' ! (currentHour div 10),
                           ''0123456789'' ! (currentHour mod 10)] @ '':00'') \<longrightarrow>
           (\<forall>j. j < length ts \<and> ts ! j = target \<and> (\<forall>k<j. ts ! k \<noteq> target) \<longrightarrow>
              fst (fetchWeatherData env) = Inr (read_at j)) \<and>
           (target \<notin> set ts \<and> \<not> toString_throws currentTime \<and>
              \<not> list_ex toString_throws (take 3 ts) \<longrightarrow>
              fst (fetchWeatherData env) = Inr (read_at 0)) \<and>
           (target \<notin> set ts \<and>
              (toString_throws currentTime \<or> list_ex toString_throws (take 3 ts)) \<longrightarrow>
              fst (fetchWeatherData env) = Inr None) \<and>
           (target \<notin> set ts \<and> (\<exists>s. currentTime = JStr s) \<and>
              (\<forall>t\<in>set ts. \<exists>l. t = JStr l) \<longrightarrow>
              fst (fetchWeatherData env) = Inr (read_at 0)) \<and>
           (target \<notin> set ts \<and>
              (\<exists>kvs v. currentTime = JObj kvs \<and> map_of kvs ''toString'' = Some v) \<longrightarrow>
              fst (fetchWeatherData env) = Inr None)))"
proof -
  have b: "caught (build_record env d currentTime (int k)) = read_at k" for k
    using build_record_at [OF cw(1) temp hourly ps cs, of env currentTime k] read_at
    by (simp add: caught_def)
  have b0: "caught (build_record env d currentTime 0) = read_at 0"
    using b [of 0] by simp
  have arr: "truthy (JArr xs)" for xs
    by simp
  note code = index_selection_code [OF up ok cw time hourly ps arr cs arr ts, unfolded b b0]
  have exact: "fst (fetchWeatherData env) = Inr (read_at i) \<and>
      fst (fetchWeatherData_part000 env) = Inr (read_at i)"
    if "i < length ts" "strict_eq (ts ! i) currentTime"
       "\<forall>j<i. \<not> strict_eq (ts ! j) currentTime" for i
    using code [THEN conjunct1, THEN spec [where x = i]] that by simp
  have unmatched: "fst (fetchWeatherData_part000 env) = Inr None \<and>
      (date_utc env currentTime = None \<longrightarrow> fst (fetchWeatherData env) = Inr None)"
    if u: "\<forall>t\<in>set ts. \<not> strict_eq t currentTime"
  proof -
    note c = mp [OF code [THEN conjunct2] u]
    from c [THEN conjunct1] c [THEN conjunct2, THEN conjunct1] show ?thesis
      by (rule conjI)
  qed
  have fallback:
    "(\<forall>j. j < length ts \<and> ts ! j = target \<and> (\<forall>k<j. ts ! k \<noteq> target) \<longrightarrow>
        fst (fetchWeatherData env) = Inr (read_at j)) \<and>
     (target \<notin> set ts \<and> \<not> toString_throws currentTime \<and>
        \<not> list_ex toString_throws (take 3 ts) \<longrightarrow>
        fst (fetchWeatherData env) = Inr (read_at 0)) \<and>
     (target \<notin> set ts \<and>
        (toString_throws currentTime \<or> list_ex toString_throws (take 3 ts)) \<longrightarrow>
        fst (fetchWeatherData env) = Inr None) \<and>
     (target \<notin> set ts \<and> (\<exists>s. currentTime = JStr s) \<and>
        (\<forall>t\<in>set ts. \<exists>l. t = JStr l) \<longrightarrow>
        fst (fetchWeatherData env) = Inr (read_at 0)) \<and>
     (target \<notin> set ts \<and>
        (\<exists>kvs v. currentTime = JObj kvs \<and> map_of kvs ''toString'' = Some v) \<longrightarrow>
        fst (fetchWeatherData env) = Inr None)"
    if u: "\<forall>t\<in>set ts. \<not> strict_eq t currentTime"
      and dt: "date_utc env currentTime = Some (currentHour, isoString)" "currentHour < 100"
      and tg: "target = JStr (takeWhile (\<lambda>c. c \<noteq> CHR ''T'') isoString @ ''T'' @
                          [''0123456789'' ! (currentHour div 10),
                           ''0123456789'' ! (currentHour mod 10)] @ '':00'')"
    for currentHour isoString target
  proof -
    have t: "target =
        JStr (targetTime (takeWhile (\<lambda>c. c \<noteq> CHR ''T'') isoString) currentHour)"
      using tg targetTime_two_digits [OF dt(2)] by simp
    note c = mp [OF code [THEN conjunct2] u]
    note c' = c [THEN conjunct2, THEN conjunct2, THEN spec [where x = currentHour],
        THEN spec [where x = isoString], THEN spec [where x = target]]
    note c3 = mp [OF c' conjI [OF dt(1) t]]
    have texts: "\<not> toString_throws currentTime \<and> \<not> list_ex toString_throws (take 3 ts)"
      if "\<exists>s. currentTime = JStr s" "\<forall>t\<in>set ts. \<exists>l. t = JStr l"
    proof -
      have "\<not> toString_throws x" if "x \<in> set (take 3 ts)" for x
      proof -
        from that have "x \<in> set ts" by (rule in_set_takeD)
        with \<open>\<forall>t\<in>set ts. \<exists>l. t = JStr l\<close> obtain l where "x = JStr l" by blast
        then show ?thesis by simp
      qed
      with that(1) show ?thesis by (auto simp: list_ex_iff)
    qed
    have object: "toString_throws currentTime"
      if "\<exists>kvs v. currentTime = JObj kvs \<and> map_of kvs ''toString'' = Some v"
      using that by auto
    show ?thesis
      apply (intro conjI impI)
      subgoal by (rule c3 [THEN conjunct1])
      subgoal using c3 [THEN conjunct2, THEN conjunct1] by simp
      subgoal using c3 [THEN conjunct2, THEN conjunct2] by simp
      subgoal using c3 [THEN conjunct2, THEN conjunct1] texts by simp
      subgoal using c3 [THEN conjunct2, THEN conjunct2] object by simp
      done
  qed
  show ?thesis
    apply (intro conjI allI impI)
    subgoal for i using exact [of i] by simp
    subgoal for i using exact [of i] by simp
    subgoal using unmatched by simp
    subgoal using unmatched by simp
    subgoal for currentHour isoString target j
      using fallback [of currentHour isoString target] by simp
    subgoal for currentHour isoString target
      using fallback [of currentHour isoString target] by simp
    subgoal for currentHour isoString target
      using fallback [of currentHour isoString target] by simp
    subgoal for currentHour isoString target
      using fallback [of currentHour isoString target] by simp
    subgoal for currentHour isoString target
      using fallback [of currentHour isoString target] by simp
    done
qed

theorem index_selection_witness:
  "date_utc same_hour_world (JStr ''2025-06-26T12:30'') = Some (12, ''2025-06-26T12:30:00.000Z'') \<and>
   fst (fetchWeatherData same_hour_world) =
     Inr (Some \<lparr>temperature = JNum 23.1, precipitation = JNum 0.1, cloudcover = JNum 25,
                 timestamp = JStr ''2025-06-26T12:30'',
                 lastUpdated = JStr ''2025-06-26T12:00:05.000Z''\<rparr>) \<and>
   fst (fetchWeatherData_part000 same_hour_world) = Inr None"
proof -
  let ?cw = "JObj [(''temperature'', JNum 23.1), (''time'', JStr ''2025-06-26T12:30'')]"
  let ?ts = "[JStr ''2025-06-26T11:00'', JStr ''2025-06-26T12:00'']"
  let ?ps = "[JNum 0.0, JNum 0.1]"
  let ?cs = "[JNum 15, JNum 25]"
  let ?hourly = "JObj [(''time'', JArr ?ts), (''precipitation'', JArr ?ps),
                       (''cloudcover'', JArr ?cs)]"
  let ?response = "\<lparr>ok = True, statusText = ''OK'', json = Inr same_hour_data\<rparr>"
  let ?now = "JStr ''2025-06-26T12:30''"
  let ?at = "\<lambda>k. if k < length ?ps \<and> k < length ?cs \<and> ?ps ! k \<noteq> JUndefined \<and>
                      ?cs ! k \<noteq> JUndefined
                   then Some \<lparr>temperature = JNum 23.1, precipitation = ?ps ! k,
                               cloudcover = ?cs ! k, timestamp = ?now,
                               lastUpdated = JStr (now_iso same_hour_world)\<rparr>
                   else None"
  have up: "net_fetch same_hour_world (apiUrl same_hour_world) = Inr ?response"
    by (simp add: same_hour_world_def example_world_def)
  have ok: "ok ?response" "json ?response = Inr same_hour_data"
    by simp_all
  have cw: "get_prop same_hour_data ''current_weather'' = Inr ?cw" "truthy ?cw"
    by (simp_all add: same_hour_data_def)
  have temp: "get_prop ?cw ''temperature'' = Inr (JNum 23.1)"
    by simp
  have time: "get_prop ?cw ''time'' = Inr ?now"
    by simp
  have hourly: "get_prop same_hour_data ''hourly'' = Inr ?hourly"
    by (simp add: same_hour_data_def)
  have ts: "get_prop ?hourly ''time'' = Inr (JArr ?ts)"
    and ps: "get_prop ?hourly ''precipitation'' = Inr (JArr ?ps)"
    and cs: "get_prop ?hourly ''cloudcover'' = Inr (JArr ?cs)"
    by simp_all
  have at: "\<forall>k. ?at k = ?at k"
    by simp
  have unmatched: "\<forall>t\<in>set ?ts. \<not> strict_eq t ?now"
    by simp
  have date: "date_utc same_hour_world ?now = Some (12, ''2025-06-26T12:30:00.000Z'')"
    by (simp add: same_hour_world_def example_world_def)
  have target: "JStr ''2025-06-26T12:00'' =
      JStr (takeWhile (\<lambda>c. c \<noteq> CHR ''T'') ''2025-06-26T12:30:00.000Z'' @ ''T'' @
            [''0123456789'' ! (12 div 10), ''0123456789'' ! (12 mod 10)] @ '':00'')"
    by simp
  have second: "(1::nat) < length ?ts \<and> ?ts ! 1 = JStr ''2025-06-26T12:00'' \<and>
      (\<forall>k<1. ?ts ! k \<noteq> JStr ''2025-06-26T12:00'')"
    by simp
  have at_1: "?at 1 =
     Some \<lparr>temperature = JNum 23.1, precipitation = JNum 0.1, cloudcover = JNum 25,
           timestamp = JStr ''2025-06-26T12:30'',
           lastUpdated = JStr ''2025-06-26T12:00:05.000Z''\<rparr>"
    by (simp add: world_defs)
  have hour: "(12::nat) < 100"
    by simp
  have hour: "(12::nat) < 100"
    by simp
  note sel = index_selection [OF up ok cw temp time hourly ts ps cs at]
  note s2 = mp [OF sel [THEN conjunct2] unmatched]
  note s3 = s2 [THEN conjunct2, THEN conjunct2, THEN spec [where x = "12::nat"],
      THEN spec [where x = "''2025-06-26T12:30:00.000Z''"],
      THEN spec [where x = "JStr ''2025-06-26T12:00''"]]
  note s4 = mp [OF s3 conjI [OF date conjI [OF hour target]]]
  have p: "fst (fetchWeatherData_part000 same_hour_world) = Inr None"
    by (rule s2 [THEN conjunct1])
  have "fst (fetchWeatherData same_hour_world) = Inr (?at 1)"
    by (rule mp [OF s4 [THEN conjunct1, THEN spec [where x = "1::nat"]] second])
  with p date show ?thesis
    by (simp only: at_1)
qed

text \<open>
  C2, as stated, fails on \<^verbatim>\<open>src/src/worker.ts\<close>: the reading's time
  \<^verbatim>\<open>2025-06-26T12:30\<close> is no label of the hourly array, the label of its hour
  \<^verbatim>\<open>2025-06-26T12:00\<close> is none either, and the fetcher returns the record of
  position 0 instead of no record.
\<close>

theorem exact_match_only_counterexample:
  "get_prop fallback_data ''hourly'' =
     Inr (JObj [(''time'', JArr [JStr ''2025-06-26T13:00'', JStr ''2025-06-26T14:00'']),
                (''precipitation'', JArr [JNum 0.2, JNum 0.3]),
                (''cloudcover'', JArr [JNum 35, JNum 45])]) \<and>
   get_prop fallback_data ''current_weather'' =
     Inr (JObj [(''temperature'', JNum 23.1), (''time'', JStr ''2025-06-26T12:30'')]) \<and>
   JStr ''2025-06-26T12:30'' \<notin> set [JStr ''2025-06-26T13:00'', JStr ''2025-06-26T14:00''] \<and>
   fst (fetchWeatherData fallback_world) =
     Inr (Some \<lparr>temperature = JNum 23.1, precipitation = JNum 0.2, cloudcover = JNum 35,
                 timestamp = JStr ''2025-06-26T12:30'',
                 lastUpdated = JStr ''2025-06-26T12:00:05.000Z''\<rparr>)"
  by (simp add: fetchWeatherData_eq comp_defs fetcher_defs world_defs nat_to_string_12)

section \<open>Where the fields of a record come from\<close>

lemma json_value_map_of:
  "list_all (\<lambda>kv. json_value (snd kv)) kvs \<Longrightarrow> map_of kvs k = Some v \<Longrightarrow> json_value v"
  by (induction kvs) (auto split: if_splits)

lemma json_value_get_prop:
  "json_value v \<Longrightarrow> get_prop v k = Inr x \<Longrightarrow> x \<noteq> JUndefined \<Longrightarrow> json_value x"
  by (cases v) (auto split: option.splits dest: json_value_map_of)

lemma json_value_no_undefined: "json_value (JArr xs) \<Longrightarrow> JUndefined \<notin> set xs"
  by (auto simp: list_all_iff)

lemma findIndexFrom_hit: "findIndexFrom p xs k \<noteq> - 1 \<Longrightarrow> \<exists>x\<in>set xs. p x"
  using findIndexFrom_none [of xs p k] by blast

lemma findIndex_undefined:
  assumes "findIndex tv (\<lambda>t. strict_eq t JUndefined) = Inr index" "index \<noteq> - 1"
  shows "\<exists>xs. tv = JArr xs \<and> JUndefined \<in> set xs"
proof (cases tv)
  case (JArr xs)
  with assms have "findIndexFrom (\<lambda>t. strict_eq t JUndefined) xs 0 \<noteq> - 1" by simp
  from findIndexFrom_hit [OF this] JArr show ?thesis by simp
qed (use assms in simp_all)

text \<open>A label array taken from a JSON value has no position that holds \<^verbatim>\<open>undefined\<close>.\<close>

lemma labels_defined:
  assumes "json_value d" "get_prop d ''hourly'' = Inr hourly"
    and "get_prop hourly ''time'' = Inr (JArr xs)"
  shows "JUndefined \<notin> set xs"
proof -
  have "hourly \<noteq> JUndefined" using assms(3) by auto
  with assms(1,2) have "json_value hourly" by (rule json_value_get_prop)
  then have "json_value (JArr xs)" using assms(3) by (rule json_value_get_prop) simp
  then show ?thesis by (rule json_value_no_undefined)
qed

lemma select_index_undefined:
  assumes "select_index env JUndefined tv = Inr k" "date_utc env JUndefined = None"
  shows "\<exists>xs. tv = JArr xs \<and> JUndefined \<in> set xs"
proof -
  from assms obtain index where
    i: "findIndex tv (\<lambda>t. strict_eq t JUndefined) = Inr index" "index \<noteq> - 1"
    by (auto simp: select_index_def bindE_def split: sum.splits if_splits)
  then show ?thesis by (rule findIndex_undefined)
qed

text \<open>Where the fields of a record returned by either fetcher come from.\<close>

lemma build_record_origin:
  assumes "build_record env d currentTime k = Inr (Some r)"
  shows "\<exists>cw hourly ps cs.
     get_prop d ''current_weather'' = Inr cw \<and>
     get_prop cw ''temperature'' = Inr (temperature r) \<and>
     get_prop d ''hourly'' = Inr hourly \<and>
     get_prop hourly ''precipitation'' = Inr ps \<and>
     get_prop hourly ''cloudcover'' = Inr cs \<and>
     js_index ps k = Inr (precipitation r) \<and>
     js_index cs k = Inr (cloudcover r) \<and>
     precipitation r \<noteq> JUndefined \<and> cloudcover r \<noteq> JUndefined \<and>
     timestamp r = currentTime \<and> lastUpdated r = JStr (now_iso env)"
  using assms
  by (auto simp: build_record_def bindE_def split: sum.splits if_splits)

lemma body_origin:
  assumes "caught (fetchWeatherData_body env response) = Some r"
  shows "ok response \<and>
    (\<exists>d cw hourly tv k.
       json response = Inr d \<and>
       get_prop d ''current_weather'' = Inr cw \<and>
       get_prop cw ''time'' = Inr (timestamp r) \<and>
       get_prop d ''hourly'' = Inr hourly \<and>
       get_prop hourly ''time'' = Inr tv \<and>
       select_index env (timestamp r) tv = Inr k \<and>
       build_record env d (timestamp r) k = Inr (Some r))"
proof -
  from assms have ok: "ok response"
    by (auto simp: fetchWeatherData_body_def caught_def split: if_splits)
  from assms ok obtain d cw currentTime hourly tv k where
    f: "json response = Inr d" "get_prop d ''current_weather'' = Inr cw"
       "get_prop cw ''time'' = Inr currentTime" "get_prop d ''hourly'' = Inr hourly"
       "get_prop hourly ''time'' = Inr tv" "select_index env currentTime tv = Inr k"
       "build_record env d currentTime k = Inr (Some r)"
    by (auto simp: fetchWeatherData_body_def bindE_def caught_def split: sum.splits if_splits)
  from build_record_origin [OF f(7)] have "timestamp r = currentTime" by blast
  with ok f show ?thesis by blast
qed

lemma body_part000_origin:
  assumes "caught (fetchWeatherData_body_part000 env response) = Some r"
  shows "ok response \<and>
    (\<exists>d cw hourly tv k.
       json response = Inr d \<and>
       get_prop d ''current_weather'' = Inr cw \<and>
       get_prop cw ''time'' = Inr (timestamp r) \<and>
       get_prop d ''hourly'' = Inr hourly \<and>
       get_prop hourly ''time'' = Inr tv \<and>
       findIndex tv (\<lambda>t. strict_eq t (timestamp r)) = Inr k \<and> k \<noteq> - 1 \<and>
       build_record env d (timestamp r) k = Inr (Some r))"
proof -
  from assms have ok: "ok response"
    by (auto simp: fetchWeatherData_body_part000_def caught_def split: if_splits)
  from assms ok obtain d currentTime tsv k where
    f: "json response = Inr d" "opt_chain d ''current_weather'' ''time'' = Inr currentTime"
       "opt_chain d ''hourly'' ''time'' = Inr tsv"
       "findIndex (if truthy tsv then tsv else JArr []) (\<lambda>t. strict_eq t currentTime) = Inr k"
       "incomplete_part000 d k = Inr False"
       "build_record env d currentTime k = Inr (Some r)"
    by (auto simp: fetchWeatherData_body_part000_def bindE_def caught_def
          split: sum.splits if_splits)
  from f(5) have k: "k \<noteq> - 1"
    by (auto simp: incomplete_part000_def split: if_splits)
  from f(5) k obtain cw where cw: "get_prop d ''current_weather'' = Inr cw" "truthy cw"
    by (auto simp: incomplete_part000_def bindE_def split: sum.splits if_splits)
  then have ct: "get_prop cw ''time'' = Inr currentTime"
    using f(2) by (simp add: opt_chain_def bindE_def truthy_not_nullish)
  have tr: "truthy tsv"
  proof (rule ccontr)
    assume "\<not> truthy tsv"
    with f(4) k show False by simp
  qed
  from build_record_origin [OF f(6)] obtain hourly where
    h: "get_prop d ''hourly'' = Inr hourly" by blast
  have "\<not> nullish hourly"
  proof
    assume "nullish hourly"
    with f(3) h tr show False by (simp add: opt_chain_def bindE_def)
  qed
  with f(3) h have tv: "get_prop hourly ''time'' = Inr tsv"
    by (simp add: opt_chain_def bindE_def)
  from build_record_origin [OF f(6)] have "timestamp r = currentTime" by blast
  with ok f(1) cw(1) ct h tv f(4) tr k f(6) show ?thesis by auto
qed

lemma body_timestamp_defined:
  assumes "caught (fetchWeatherData_body env response) = Some r"
    and "json response = Inr d" "json_value d" "date_utc env JUndefined = None"
  shows "timestamp r \<noteq> JUndefined"
proof
  assume u: "timestamp r = JUndefined"
  from body_origin [OF assms(1)] assms(2) obtain hourly tv k where
    f: "get_prop d ''hourly'' = Inr hourly" "get_prop hourly ''time'' = Inr tv"
       "select_index env (timestamp r) tv = Inr k"
    by auto
  from select_index_undefined [OF f(3) [unfolded u] assms(4)] obtain xs where
    "tv = JArr xs" "JUndefined \<in> set xs" by blast
  with labels_defined [OF assms(3) f(1)] f(2) show False by simp
qed

lemma body_part000_timestamp_defined:
  assumes "caught (fetchWeatherData_body_part000 env response) = Some r"
    and "json response = Inr d" "json_value d"
  shows "timestamp r \<noteq> JUndefined"
proof
  assume u: "timestamp r = JUndefined"
  from body_part000_origin [OF assms(1)] assms(2) obtain hourly tv k where
    f: "get_prop d ''hourly'' = Inr hourly" "get_prop hourly ''time'' = Inr tv"
       "findIndex tv (\<lambda>t. strict_eq t (timestamp r)) = Inr k" "k \<noteq> - 1"
    by auto
  from findIndex_undefined [OF f(3) [unfolded u] f(4)] obtain xs where
    "tv = JArr xs" "JUndefined \<in> set xs" by blast
  with labels_defined [OF assms(3) f(1)] f(2) show False by simp
qed

lemma has_field_get_prop:
  "has_field v k \<Longrightarrow> get_prop v k = Inr x \<Longrightarrow> x \<noteq> JUndefined"
  by (cases v) (auto simp: has_field_def split: option.splits)

lemma fetched_record_facts:
  assumes "fst (fetchWeatherData env) = Inr (Some r) \<or>
           fst (fetchWeatherData_part000 env) = Inr (Some r)"
  shows "(\<exists>response d cw hourly ps cs k.
            net_fetch env (apiUrl env) = Inr response \<and> ok response \<and>
            json response = Inr d \<and>
            get_prop d ''current_weather'' = Inr cw \<and>
            get_prop cw ''temperature'' = Inr (temperature r) \<and>
            get_prop cw ''time'' = Inr (timestamp r) \<and>
            get_prop d ''hourly'' = Inr hourly \<and>
            get_prop hourly ''precipitation'' = Inr ps \<and>
            get_prop hourly ''cloudcover'' = Inr cs \<and>
            js_index ps k = Inr (precipitation r) \<and>
            js_index cs k = Inr (cloudcover r)) \<and>
         precipitation r \<noteq> JUndefined \<and> cloudcover r \<noteq> JUndefined \<and>
         lastUpdated r = JStr (now_iso env) \<and>
         (temperature_defined env \<longrightarrow> temperature r \<noteq> JUndefined) \<and>
         (upstream_json env \<and> date_utc env JUndefined = None \<longrightarrow>
            timestamp r \<noteq> JUndefined \<and> (temperature_defined env \<longrightarrow> complete r))"
proof (cases "net_fetch env (apiUrl env)")
  case (Inl e)
  with assms show ?thesis
    by (simp add: fetchWeatherData_eq fetchWeatherData_part000_eq)
next
  case up: (Inr response)
  with assms have s: "caught (fetchWeatherData_body env response) = Some r \<or>
      caught (fetchWeatherData_body_part000 env response) = Some r"
    by (simp add: fetchWeatherData_eq fetchWeatherData_part000_eq)
  then obtain d cw k where
    f: "ok response" "json response = Inr d" "get_prop d ''current_weather'' = Inr cw"
       "get_prop cw ''time'' = Inr (timestamp r)"
       "build_record env d (timestamp r) k = Inr (Some r)"
    using body_origin [of env response r] body_part000_origin [of env response r] by blast
  from build_record_origin [OF f(5)] f(3) obtain hourly ps cs where
    g: "get_prop cw ''temperature'' = Inr (temperature r)"
       "get_prop d ''hourly'' = Inr hourly"
       "get_prop hourly ''precipitation'' = Inr ps"
       "get_prop hourly ''cloudcover'' = Inr cs"
       "js_index ps k = Inr (precipitation r)" "js_index cs k = Inr (cloudcover r)"
       "precipitation r \<noteq> JUndefined" "cloudcover r \<noteq> JUndefined"
       "lastUpdated r = JStr (now_iso env)"
    by auto
  have origin: "\<exists>response d cw hourly ps cs k.
            net_fetch env (apiUrl env) = Inr response \<and> ok response \<and>
            json response = Inr d \<and>
            get_prop d ''current_weather'' = Inr cw \<and>
            get_prop cw ''temperature'' = Inr (temperature r) \<and>
            get_prop cw ''time'' = Inr (timestamp r) \<and>
            get_prop d ''hourly'' = Inr hourly \<and>
            get_prop hourly ''precipitation'' = Inr ps \<and>
            get_prop hourly ''cloudcover'' = Inr cs \<and>
            js_index ps k = Inr (precipitation r) \<and>
            js_index cs k = Inr (cloudcover r)"
    using up f(1-4) g(1-6) by blast
  have temp: "temperature r \<noteq> JUndefined" if "temperature_defined env"
  proof -
    from that up f(2,3) have "has_field cw ''temperature''"
      by (simp add: temperature_defined_def)
    then show ?thesis using g(1) by (rule has_field_get_prop)
  qed
  have stamp: "timestamp r \<noteq> JUndefined"
    if "upstream_json env" "date_utc env JUndefined = None"
  proof -
    from that(1) up f(2) have j: "json_value d"
      by (simp add: upstream_json_def)
    from s show ?thesis
    proof
      assume "caught (fetchWeatherData_body env response) = Some r"
      then show ?thesis using f(2) j that(2) by (rule body_timestamp_defined)
    next
      assume "caught (fetchWeatherData_body_part000 env response) = Some r"
      then show ?thesis using f(2) j by (rule body_part000_timestamp_defined)
    qed
  qed
  have full: "complete r"
    if "upstream_json env" "date_utc env JUndefined = None" "temperature_defined env"
    using temp [OF that(3)] stamp [OF that(1,2)] g(7-9) by (simp add: complete_def)
  from origin g(7-9) temp stamp full show ?thesis
    by (intro conjI impI) simp_all
qed

text \<open>
  C7, as stated, fails on a body whose \<^verbatim>\<open>current_weather\<close> has a time and no
  temperature: both fetchers return a record whose temperature is
  \<^verbatim>\<open>undefined\<close>.
\<close>

theorem fetcher_partial_record_counterexample:
  "get_prop no_temperature_data ''current_weather'' =
     Inr (JObj [(''time'', JStr ''2025-06-26T12:00'')]) \<and>
   fst (fetchWeatherData no_temperature_world) =
     Inr (Some \<lparr>temperature = JUndefined, precipitation = JNum 0.1, cloudcover = JNum 25,
                 timestamp = JStr ''2025-06-26T12:00'',
                 lastUpdated = JStr ''2025-06-26T12:00:05.000Z''\<rparr>) \<and>
   fst (fetchWeatherData_part000 no_temperature_world) =
     Inr (Some \<lparr>temperature = JUndefined, precipitation = JNum 0.1, cloudcover = JNum 25,
                 timestamp = JStr ''2025-06-26T12:00'',
                 lastUpdated = JStr ''2025-06-26T12:00:05.000Z''\<rparr>) \<and>
   \<not> complete \<lparr>temperature = JUndefined, precipitation = JNum 0.1, cloudcover = JNum 25,
                 timestamp = JStr ''2025-06-26T12:00'',
                 lastUpdated = JStr ''2025-06-26T12:00:05.000Z''\<rparr>"
  by (simp add: fetchWeatherData_eq fetchWeatherData_part000_eq comp_defs fetcher_defs
        world_defs complete_def)

text \<open>
  C7, as the code has it. Whatever the upstream does, each fetcher makes its
  one call, never throws, and returns no record or a record. In a record the
  precipitation and the cloudcover are what the body's hourly precipitation
  and cloudcover hold at one common index, both defined, the temperature and
  the timestamp are what \<^verbatim>\<open>current_weather\<close> holds, and the time of construction
  is the clock's. The temperature is defined whenever \<^verbatim>\<open>current_weather\<close>
  carries one. On a platform whose \<^verbatim>\<open>response.json()\<close> yields JSON values and
  whose \<^verbatim>\<open>new Date(undefined)\<close> is an invalid date, the timestamp is always
  defined, so the record is complete whenever \<^verbatim>\<open>current_weather\<close> carries a
  temperature.
\<close>

theorem fetcher_total:
  "\<exists>res res'.
     fetchWeatherData env = (Inr res, [NetFetch (apiUrl env)]) \<and>
     fetchWeatherData_part000 env = (Inr res', [NetFetch (apiUrl env)]) \<and>
     (\<forall>r. res = Some r \<or> res' = Some r \<longrightarrow>
        (\<exists>response d cw hourly ps cs k.
            net_fetch env (apiUrl env) = Inr response \<and> ok response \<and>
            json response = Inr d \<and>
            get_prop d ''current_weather'' = Inr cw \<and>
            get_prop cw ''temperature'' = Inr (temperature r) \<and>
            get_prop cw ''time'' = Inr (timestamp r) \<and>
            get_prop d ''hourly'' = Inr hourly \<and>
            get_prop hourly ''precipitation'' = Inr ps \<and>
            get_prop hourly ''cloudcover'' = Inr cs \<and>
            js_index ps k = Inr (precipitation r) \<and>
            js_index cs k = Inr (cloudcover r)) \<and>
        precipitation r \<noteq> JUndefined \<and> cloudcover r \<noteq> JUndefined \<and>
        lastUpdated r = JStr (now_iso env) \<and>
        (temperature_defined env \<longrightarrow> temperature r \<noteq> JUndefined) \<and>
        (upstream_json env \<and> date_utc env JUndefined = None \<longrightarrow>
           timestamp r \<noteq> JUndefined \<and> (temperature_defined env \<longrightarrow> complete r)))"
proof -
  obtain res res' where
    r: "fetchWeatherData env = (Inr res, [NetFetch (apiUrl env)])"
       "fetchWeatherData_part000 env = (Inr res', [NetFetch (apiUrl env)])"
    by (simp add: fetchWeatherData_eq fetchWeatherData_part000_eq)
  have facts: "(\<exists>response d cw hourly ps cs k.
            net_fetch env (apiUrl env) = Inr response \<and> ok response \<and>
            json response = Inr d \<and>
            get_prop d ''current_weather'' = Inr cw \<and>
            get_prop cw ''temperature'' = Inr (temperature r') \<and>
            get_prop cw ''time'' = Inr (timestamp r') \<and>
            get_prop d ''hourly'' = Inr hourly \<and>
            get_prop hourly ''precipitation'' = Inr ps \<and>
            get_prop hourly ''cloudcover'' = Inr cs \<and>
            js_index ps k = Inr (precipitation r') \<and>
            js_index cs k = Inr (cloudcover r')) \<and>
        precipitation r' \<noteq> JUndefined \<and> cloudcover r' \<noteq> JUndefined \<and>
        lastUpdated r' = JStr (now_iso env) \<and>
        (temperature_defined env \<longrightarrow> temperature r' \<noteq> JUndefined) \<and>
        (upstream_json env \<and> date_utc env JUndefined = None \<longrightarrow>
           timestamp r' \<noteq> JUndefined \<and> (temperature_defined env \<longrightarrow> complete r'))"
    if "res = Some r' \<or> res' = Some r'" for r'
  proof -
    from that r have "fst (fetchWeatherData env) = Inr (Some r') \<or>
        fst (fetchWeatherData_part000 env) = Inr (Some r')"
      by auto
    then show ?thesis by (rule fetched_record_facts)
  qed
  show ?thesis
    apply (rule exI [of _ res])
    apply (rule exI [of _ res'])
    apply (intro conjI)
    subgoal by (rule r(1))
    subgoal by (rule r(2))
    subgoal
      apply (intro allI impI)
      subgoal for r' by (rule facts)
      done
    done
qed

theorem fetcher_total_witness:
  "temperature_defined example_world \<and> upstream_json example_world \<and>
   date_utc example_world JUndefined = None \<and>
   fetchWeatherData example_world = (Inr (Some example_record), [NetFetch (apiUrl example_world)]) \<and>
   complete example_record"
proof -
  have t: "temperature_defined example_world"
    by (simp add: temperature_defined_def has_field_def world_defs)
  have j: "upstream_json example_world"
    by (simp add: upstream_json_def world_defs)
  have u: "date_utc example_world JUndefined = None"
    by (simp add: example_world_def)
  from fetcher_total [of example_world] obtain res where
    f: "fetchWeatherData example_world = (Inr res, [NetFetch (apiUrl example_world)])"
    and c: "\<forall>r. res = Some r \<longrightarrow>
        (upstream_json example_world \<and> date_utc example_world JUndefined = None \<longrightarrow>
           (temperature_defined example_world \<longrightarrow> complete r))"
    by blast
  from f example_fetch have "res = Some example_record" by simp
  with c t j u have "complete example_record" by blast
  with t j u example_fetch show ?thesis by simp
qed

section \<open>What the handlers return and store\<close>






end
